theory Spec2Isabelle
  imports Complex_Main "HOL-Library.Product_Lexorder"
begin

text \<open>
  The document tools of the toolkit: the quota rule of \<open>models.py\<close>, the
  renderers of \<open>utils.py\<close>, the four generators of \<open>tools.py\<close> and the
  download route of \<open>app.py\<close>, as functions on an explicit state (the user and
  document tables and the generated files), followed by the properties of the
  specification that they do and do not have.
\<close>

section \<open>Data model (models.py)\<close>

text \<open>
  A naive \<open>datetime\<close> is its seven calendar fields. Python compares two naive
  datetimes field by field, from the year down to the microsecond, which is the
  lexicographic order on the tuple of fields.
\<close>

record datetime =
  year :: nat
  month :: nat
  day :: nat
  hour :: nat
  minute :: nat
  second :: nat
  microsecond :: nat

definition dt_key :: "datetime \<Rightarrow> nat \<times> nat \<times> nat \<times> nat \<times> nat \<times> nat \<times> nat" where
  "dt_key d = (year d, month d, day d, hour d, minute d, second d, microsecond d)"

definition dt_gt :: "datetime \<Rightarrow> datetime \<Rightarrow> bool" where
  "dt_gt a b = (dt_key b < dt_key a)"

definition dt_ge :: "datetime \<Rightarrow> datetime \<Rightarrow> bool" where
  "dt_ge a b = (dt_key b \<le> dt_key a)"

text \<open>
  \<open>class User\<close>: the columns the document tools read or write. The primary key
  \<open>id\<close> is \<open>id_user\<close> here.
\<close>

record user =
  id_user :: nat
  subscription_plan :: string
  subscription_expires :: "datetime option"
  documents_created :: int

section \<open>Binary64 arithmetic\<close>

text \<open>
  Python's \<open>float\<close> is IEEE binary64. A finite double is the rational it denotes;
  \<open>float(v)\<close> and every arithmetic operation return the exact result rounded to
  the nearest double, ties to the even significand. \<open>fl\<close> is that rounding:
  53 significant bits, the exponent not below \<open>-1022\<close> (gradual underflow).
  Results beyond the largest double (Python's \<open>inf\<close>) are outside this model.
\<close>

function ilog2 :: "int \<Rightarrow> int" where
  "ilog2 n = (if n < 2 then 0 else 1 + ilog2 (n div 2))"
  by pat_completeness auto
termination
  by (relation "measure nat") auto

declare ilog2.simps [simp del]

definition pow2 :: "int \<Rightarrow> rat" where
  "pow2 e = (if 0 \<le> e then 2 ^ nat e else 1 / 2 ^ nat (- e))"

definition float_exp :: "rat \<Rightarrow> int" where
  "float_exp x =
     (let (p, q) = quotient_of \<bar>x\<bar>;
          d = ilog2 p - ilog2 q
      in if pow2 d \<le> \<bar>x\<bar> then d else d - 1)"

definition round_half_even :: "rat \<Rightarrow> int" where
  "round_half_even r =
     (let f = \<lfloor>r\<rfloor>; d = r - of_int f
      in if d < 1 / 2 then f
         else if 1 / 2 < d then f + 1
         else if even f then f else f + 1)"

definition fl :: "rat \<Rightarrow> rat" where
  "fl x =
     (if x = 0 then 0
      else let u = pow2 (max (float_exp x) (- 1022) - 52)
           in of_int (round_half_even (x / u)) * u)"

definition fadd :: "rat \<Rightarrow> rat \<Rightarrow> rat" where
  "fadd a b = fl (a + b)"

definition fsub :: "rat \<Rightarrow> rat \<Rightarrow> rat" where
  "fsub a b = fl (a - b)"

definition fmul :: "rat \<Rightarrow> rat \<Rightarrow> rat" where
  "fmul a b = fl (a * b)"

definition fdiv :: "rat \<Rightarrow> rat \<Rightarrow> rat" where
  "fdiv a b = fl (a / b)"

section \<open>Python strings\<close>

text \<open>
  Strings are ASCII strings. \<open>isspace\<close> lists the ASCII characters that
  \<open>str.strip()\<close> removes; \<open>str.replace(' ', '_')\<close> replaces one character;
  \<open>fstr\<close> is the text an f-string puts for a value that may be \<open>None\<close>.
\<close>

definition isspace :: "char \<Rightarrow> bool" where
  "isspace c = (c \<in> set [CHR 0x09, CHR 0x0A, CHR 0x0B, CHR 0x0C, CHR 0x0D,
                            CHR 0x1C, CHR 0x1D, CHR 0x1E, CHR 0x1F, CHR 0x20])"

definition strip :: "string \<Rightarrow> string" where
  "strip s = rev (dropWhile isspace (rev (dropWhile isspace s)))"

definition replace_char :: "char \<Rightarrow> char \<Rightarrow> string \<Rightarrow> string" where
  "replace_char old new s = map (\<lambda>c. if c = old then new else c) s"

definition upper_letters :: string where
  "upper_letters = ''ABCDEFGHIJKLMNOPQRSTUVWXYZ''"

definition lower_letters :: string where
  "lower_letters = ''abcdefghijklmnopqrstuvwxyz''"

definition to_lower :: "char \<Rightarrow> char" where
  "to_lower c = (case map_of (zip upper_letters lower_letters) c of Some l \<Rightarrow> l | None \<Rightarrow> c)"

definition to_upper :: "char \<Rightarrow> char" where
  "to_upper c = (case map_of (zip lower_letters upper_letters) c of Some u \<Rightarrow> u | None \<Rightarrow> c)"

definition lower :: "string \<Rightarrow> string" where
  "lower s = map to_lower s"

text \<open>
  \<open>str.title()\<close>: a letter that follows a letter is lowered, a letter that does
  not is raised, every other character is kept and ends the word.
\<close>

fun title_from :: "bool \<Rightarrow> string \<Rightarrow> string" where
  "title_from previous_is_cased [] = []"
| "title_from previous_is_cased (c # cs) =
     (if c \<in> set lower_letters then
        (if previous_is_cased then c else to_upper c) # title_from True cs
      else if c \<in> set upper_letters then
        (if previous_is_cased then to_lower c else c) # title_from True cs
      else c # title_from False cs)"

definition title_str :: "string \<Rightarrow> string" where
  "title_str s = title_from False s"

definition fstr :: "string option \<Rightarrow> string" where
  "fstr v = (case v of None \<Rightarrow> ''None'' | Some s \<Rightarrow> s)"

text \<open>
  \<open>int(s)\<close> on a string: surrounding whitespace is dropped, one sign is allowed,
  then decimal digits, with single underscores between digits. \<open>None\<close> is
  \<open>ValueError\<close>.
\<close>

definition digit_of :: "char \<Rightarrow> int option" where
  "digit_of c = map_of (zip ''0123456789'' [0, 1, 2, 3, 4, 5, 6, 7, 8, 9]) c"

fun int_digits :: "bool \<Rightarrow> int \<Rightarrow> string \<Rightarrow> int option" where
  "int_digits after_digit acc [] = (if after_digit then Some acc else None)"
| "int_digits after_digit acc (c # cs) =
     (if c = CHR ''_'' then (if after_digit then int_digits False acc cs else None)
      else (case digit_of c of
              None \<Rightarrow> None
            | Some d \<Rightarrow> int_digits True (10 * acc + d) cs))"

definition py_int :: "string \<Rightarrow> int option" where
  "py_int s =
     (case strip s of
        [] \<Rightarrow> None
      | c # cs \<Rightarrow>
          if c = CHR ''-'' then map_option uminus (int_digits False 0 cs)
          else if c = CHR ''+'' then int_digits False 0 cs
          else int_digits False 0 (c # cs))"

definition dict_get :: "(string \<rightharpoonup> string) \<Rightarrow> string \<Rightarrow> string \<Rightarrow> string" where
  "dict_get d k dflt = (case d k of None \<Rightarrow> dflt | Some v \<Rightarrow> v)"

section \<open>Request payloads (tools.py)\<close>

text \<open>
  The dictionaries the four tools build from the request. A request field is a
  string or absent (\<open>None\<close>); a numeric item field is the number the JSON
  text denotes. \<open>tax_rate\<close> and \<open>discount\<close> hold the results of
  \<open>float(...)\<close>.
\<close>

record invoice_item =
  description :: string
  quantity :: rat
  rate :: rat

record invoice_data =
  company_name :: "string option"
  company_address :: "string option"
  company_email :: "string option"
  company_phone :: "string option"
  client_name :: "string option"
  client_address :: "string option"
  client_email :: "string option"
  invoice_number :: "string option"
  invoice_date :: "string option"
  due_date :: "string option"
  items :: "invoice_item list"
  tax_rate :: rat
  discount :: rat
  notes_inv :: "string option"
  template_id_inv :: "string option"

type_synonym jrecord = "(string \<times> string) list"

record resume_data =
  full_name :: "string option"
  email :: "string option"
  phone :: "string option"
  address :: "string option"
  linkedin :: "string option"
  portfolio :: "string option"
  summary :: "string option"
  education :: "jrecord list"
  experience :: "jrecord list"
  skills :: "jrecord list"
  projects :: "jrecord list"
  certifications :: "jrecord list"
  template_id_res :: "string option"
  format_res :: string

record certificate_data =
  recipient_name :: "string option"
  course_name :: "string option"
  completion_date :: "string option"
  instructor_name :: "string option"
  organization :: "string option"
  description_cert :: "string option"
  template_id_cert :: "string option"
  bulk_names :: "string list"

text \<open>
  The certificate request as posted: the form fields, \<open>bulk_mode\<close>, and the
  list that \<open>json.loads\<close> reads from the field \<open>bulk_names\<close> (\<open>[]\<close> when
  the field is absent).
\<close>

record certificate_form =
  form_fields :: certificate_data
  bulk_mode :: "string option"

record qr_data =
  type_qr :: string
  content_qr :: "string option"
  size_qr :: int
  format_qr :: string
  error_correction_qr :: string

datatype payload =
    InvoicePayload invoice_data
  | ResumePayload resume_data
  | CertificatePayload certificate_data
  | QrPayload qr_data

text \<open>
  \<open>class Document\<close>. \<open>pending\<close> is the object the tool constructs and adds to
  the session; the columns \<open>uuid\<close>, \<open>created_at\<close> and \<open>downloaded_count\<close> have
  defaults that the store fills in when the row is inserted, so a pending object
  has no \<open>uuid\<close> yet.
\<close>

record pending =
  user_id :: nat
  document_type :: string
  title :: string
  file_path :: string
  file_type :: string
  template_used :: "string option"
  data_json :: payload

record document = pending +
  uuid :: string
  created_at :: datetime
  downloaded_count :: int

section \<open>Quota (models.py)\<close>

definition is_premium :: "user \<Rightarrow> datetime \<Rightarrow> bool" where
  "is_premium self now =
     (if subscription_plan self = ''premium'' then
        (case subscription_expires self of
           None \<Rightarrow> False
         | Some expires \<Rightarrow> if dt_gt expires now then True else False)
      else False)"

definition can_create_document :: "user \<Rightarrow> document list \<Rightarrow> datetime \<Rightarrow> bool" where
  "can_create_document self docs now =
     (if is_premium self now then True
      else let current_month_start =
                 now\<lparr>day := 1, hour := 0, minute := 0, second := 0, microsecond := 0\<rparr>;
               monthly_docs =
                 length (filter (\<lambda>d. user_id d = id_user self
                                      \<and> dt_ge (created_at d) current_month_start) docs)
           in monthly_docs < 5)"

section \<open>Artifacts, environment and state\<close>

text \<open>
  What a renderer leaves on disk. The invoice table holds the computed figures as
  numbers; their display format (\<open>:.2f\<close> and the currency sign) is not modelled.
\<close>

record invoice_row =
  row_description :: string
  row_quantity :: rat
  row_rate :: rat
  row_amount :: rat

record invoice_table =
  item_rows :: "invoice_row list"
  subtotal_cell :: rat
  discount_cell :: rat
  tax_cell :: rat
  total_cell :: rat

datatype pyval = PNone | PInt int | PStr string

datatype ec_level = ERROR_CORRECT_L | ERROR_CORRECT_M | ERROR_CORRECT_Q | ERROR_CORRECT_H

record qrcode =
  version :: nat
  error_correction :: ec_level
  box_size :: nat
  border :: nat
  qr_content :: pyval

datatype image =
    SvgPathImage qrcode
  | PilImage qrcode pyval pyval int

datatype artifact =
    InvoicePdf invoice_table
  | ResumePdf resume_data
  | CertificatePdf certificate_data
  | QrImage image

datatype pyerror =
    AttributeError | TypeError | ValueError | NameError
  | DataOverflowError | OSError | BuildError

text \<open>
  What one request gets from outside the program: the clock, the random tokens
  (\<open>uuid.uuid4().hex[:8]\<close>, numbered by draw) and row identifiers
  (\<open>str(uuid.uuid4())\<close>, numbered by inserted row), whether the rendering library
  completes and writes the file at a path, and whether the QR library can encode
  a content. One request sees one clock value.
\<close>

record env =
  utcnow :: datetime
  hex8 :: "nat \<Rightarrow> string"
  uuid4 :: "nat \<Rightarrow> string"
  render_ok :: "string \<Rightarrow> bool"
  qr_fits :: "pyval \<Rightarrow> bool"

record state =
  users :: "user list"
  documents :: "document list"
  files :: "string \<rightharpoonup> artifact"

definition GENERATED_FILES_FOLDER :: string where
  "GENERATED_FILES_FOLDER = ''generated_files''"

definition path_join :: "string \<Rightarrow> string \<Rightarrow> string" where
  "path_join a b = (if b \<noteq> [] \<and> hd b = CHR ''/'' then b else a @ ''/'' @ b)"

section \<open>Renderers (utils.py)\<close>

subsection \<open>generate_invoice_pdf\<close>

text \<open>
  The loop over the items keeps the running \<open>subtotal\<close> and the table rows; the
  four totals follow. \<open>invoice_totals\<close> is the record of the local variables
  when the table is complete.
\<close>

record invoice_totals =
  items_data :: "invoice_row list"
  subtotal :: rat
  discount_amount :: rat
  after_discount :: rat
  tax_amount :: rat
  total_inv :: rat

fun invoice_loop :: "invoice_item list \<Rightarrow> rat \<Rightarrow> invoice_row list \<Rightarrow> rat \<times> invoice_row list" where
  "invoice_loop [] subtotal_acc rows_acc = (subtotal_acc, rows_acc)"
| "invoice_loop (item # rest) subtotal_acc rows_acc =
     (let amount = fmul (fl (quantity item)) (fl (rate item))
      in invoice_loop rest (fadd subtotal_acc amount)
           (rows_acc @ [\<lparr>row_description = description item, row_quantity = quantity item,
                          row_rate = fl (rate item), row_amount = amount\<rparr>]))"

definition compute_invoice :: "invoice_data \<Rightarrow> invoice_totals" where
  "compute_invoice d =
     (let (sub, rows) = invoice_loop (items d) 0 [];
          discount_amount = fmul sub (fdiv (discount d) 100);
          after_discount = fsub sub discount_amount;
          tax_amount = fmul after_discount (fdiv (tax_rate d) 100);
          total = fadd after_discount tax_amount
      in \<lparr>items_data = rows, subtotal = sub, discount_amount = discount_amount,
          after_discount = after_discount, tax_amount = tax_amount, total_inv = total\<rparr>)"

definition table_of :: "invoice_totals \<Rightarrow> invoice_table" where
  "table_of t = \<lparr>item_rows = items_data t, subtotal_cell = subtotal t,
                 discount_cell = discount_amount t, tax_cell = tax_amount t,
                 total_cell = total_inv t\<rparr>"

definition generate_invoice_pdf ::
  "env \<Rightarrow> invoice_data \<Rightarrow> string \<Rightarrow> (string \<rightharpoonup> artifact) \<Rightarrow> (pyerror + unit) \<times> (string \<rightharpoonup> artifact)" where
  "generate_invoice_pdf e d path fs =
     (let t = compute_invoice d
      in if render_ok e path then (Inr (), fs(path \<mapsto> InvoicePdf (table_of t)))
         else (Inl OSError, fs))"

subsection \<open>generate_resume_pdf and generate_certificate_pdf\<close>

definition generate_resume_pdf ::
  "env \<Rightarrow> resume_data \<Rightarrow> string \<Rightarrow> (string \<rightharpoonup> artifact) \<Rightarrow> (pyerror + unit) \<times> (string \<rightharpoonup> artifact)" where
  "generate_resume_pdf e d path fs =
     (if render_ok e path then (Inr (), fs(path \<mapsto> ResumePdf d)) else (Inl OSError, fs))"

definition generate_certificate_pdf ::
  "env \<Rightarrow> certificate_data \<Rightarrow> string \<Rightarrow> (string \<rightharpoonup> artifact) \<Rightarrow> (pyerror + unit) \<times> (string \<rightharpoonup> artifact)" where
  "generate_certificate_pdf e d path fs =
     (if render_ok e path then (Inr (), fs(path \<mapsto> CertificatePdf d)) else (Inl OSError, fs))"

subsection \<open>generate_qr_code, defined twice\<close>

text \<open>
  A Python function takes its positional arguments as a list; a parameter with a
  default takes the default when the list is too short. The result is the raised
  exception or the returned value (\<open>None\<close> or an image), and the files.
\<close>

type_synonym pyfun =
  "env \<Rightarrow> pyval list \<Rightarrow> (string \<rightharpoonup> artifact) \<Rightarrow> (pyerror + image option) \<times> (string \<rightharpoonup> artifact)"

definition arg :: "pyval list \<Rightarrow> nat \<Rightarrow> pyval \<Rightarrow> pyval" where
  "arg args i dflt = (if i < length args then args ! i else dflt)"

text \<open>
  \<open>qrcode.QRCode(version=1, error_correction=ERROR_CORRECT_M, box_size=10,
  border=4)\<close>, \<open>add_data\<close> and \<open>make(fit=True)\<close>: both definitions build the
  code with these literal settings.
\<close>

definition QRCode_make :: "env \<Rightarrow> pyval \<Rightarrow> pyerror + qrcode" where
  "QRCode_make e content =
     (if qr_fits e content
      then Inr \<lparr>version = 1, error_correction = ERROR_CORRECT_M, box_size = 10, border = 4,
                qr_content = content\<rparr>
      else Inl DataOverflowError)"

definition img_save ::
  "env \<Rightarrow> image \<Rightarrow> pyval \<Rightarrow> (string \<rightharpoonup> artifact) \<Rightarrow> (pyerror + image option) \<times> (string \<rightharpoonup> artifact)" where
  "img_save e img path fs =
     (case path of
        PStr p \<Rightarrow> if render_ok e p then (Inr None, fs(p \<mapsto> QrImage img)) else (Inl OSError, fs)
      | _ \<Rightarrow> (Inl TypeError, fs))"

definition resize :: "qrcode \<Rightarrow> pyval \<Rightarrow> pyval \<Rightarrow> pyval \<Rightarrow> pyerror + image" where
  "resize qr fill back sz =
     (case sz of
        PInt n \<Rightarrow> if 0 < n then Inr (PilImage qr fill back n) else Inl ValueError
      | _ \<Rightarrow> Inl TypeError)"

text \<open>
  The first definition (line 262):
  \<open>generate_qr_code(content, file_path, size=300, format='png')\<close>. It saves the
  image at \<open>file_path\<close> and lets every exception through.
\<close>

definition generate_qr_code_1 :: pyfun where
  "generate_qr_code_1 e args fs =
     (if length args < 2 \<or> 4 < length args then (Inl TypeError, fs)
      else let content = args ! 0; path = args ! 1;
               sz = arg args 2 (PInt 300); fmt = arg args 3 (PStr ''png'')
           in case QRCode_make e content of
                Inl err \<Rightarrow> (Inl err, fs)
              | Inr qr \<Rightarrow>
                  (case fmt of
                     PStr f \<Rightarrow>
                       if lower f = ''svg'' then img_save e (SvgPathImage qr) path fs
                       else (case resize qr (PStr ''black'') (PStr ''white'') sz of
                               Inl err \<Rightarrow> (Inl err, fs)
                             | Inr img \<Rightarrow> img_save e img path fs)
                   | _ \<Rightarrow> (Inl AttributeError, fs)))"

text \<open>
  The second definition (line 468):
  \<open>generate_qr_code(data, size=300, format='png', error_correction='M',
  foreground_color='#000000', background_color='#ffffff')\<close>. Its body is one
  \<open>try\<close> block whose handler prints and returns \<open>None\<close>; it returns the image
  and saves nothing.
\<close>

definition qr_try_body :: "env \<Rightarrow> pyval list \<Rightarrow> pyerror + image" where
  "qr_try_body e args =
     (let data = args ! 0; sz = arg args 1 (PInt 300); fmt = arg args 2 (PStr ''png'');
          foreground_color = arg args 4 (PStr ''#000000'');
          background_color = arg args 5 (PStr ''#ffffff'')
      in case QRCode_make e data of
           Inl err \<Rightarrow> Inl err
         | Inr qr \<Rightarrow>
             (case fmt of
                PStr f \<Rightarrow>
                  if lower f = ''svg'' then Inr (SvgPathImage qr)
                  else resize qr foreground_color background_color sz
              | _ \<Rightarrow> Inl AttributeError))"

definition generate_qr_code_2 :: pyfun where
  "generate_qr_code_2 e args fs =
     (if length args < 1 \<or> 6 < length args then (Inl TypeError, fs)
      else (case qr_try_body e args of
              Inl err \<Rightarrow> (Inr None, fs)
            | Inr img \<Rightarrow> (Inr (Some img), fs)))"

text \<open>
  The module's definitions of the name, in the order of the file. A later
  \<open>def\<close> rebinds the name, so \<open>from utils import generate_qr_code\<close> gets the
  last one.
\<close>

definition utils_module :: "(string \<times> pyfun) list" where
  "utils_module = [(''generate_qr_code'', generate_qr_code_1),
                   (''generate_qr_code'', generate_qr_code_2)]"

definition import_from :: "(string \<times> 'a) list \<Rightarrow> string \<Rightarrow> 'a option" where
  "import_from defs name = map_of (rev defs) name"

definition generate_qr_code :: pyfun where
  "generate_qr_code =
     (case import_from utils_module ''generate_qr_code'' of
        Some f \<Rightarrow> f
      | None \<Rightarrow> (\<lambda>e args fs. (Inl NameError, fs)))"

section \<open>The tools (tools.py)\<close>

datatype response =
    Success "(string \<times> string) list"
  | QuotaExceeded
  | PremiumRequired
  | GenerationFailed
  | Unhandled pyerror

text \<open>
  \<open>url_for('download_document', document_uuid=v)\<close>. The route is
  \<open>/download/<document_uuid>\<close>. The URL builder drops the arguments that are
  \<open>None\<close>, so without an identifier the route has no value for its variable
  and the call raises \<open>BuildError\<close>.
\<close>

definition url_for :: "string option \<Rightarrow> pyerror + string" where
  "url_for document_uuid =
     (case document_uuid of
        Some u \<Rightarrow> Inr (''/download/'' @ u)
      | None \<Rightarrow> Inl BuildError)"

definition get_current_user :: "state \<Rightarrow> nat \<Rightarrow> user option" where
  "get_current_user s session_user_id = find (\<lambda>u. id_user u = session_user_id) (users s)"

text \<open>
  The tables are lists of rows; \<open>User.query.get(id)\<close> is the row with that
  primary key. \<open>db.session.commit()\<close>: the pending rows are inserted in the
  order they were added, each with its defaults, and the counter computed from
  the loaded user object is written to the user's row. \<open>db.session.rollback()\<close> leaves the store as it was; files already
  written stay.
\<close>

definition insert_row :: "env \<Rightarrow> nat \<Rightarrow> pending \<Rightarrow> document" where
  "insert_row e k p =
     \<lparr>user_id = user_id p, document_type = document_type p, title = title p,
      file_path = file_path p, file_type = file_type p, template_used = template_used p,
      data_json = data_json p,
      uuid = uuid4 e k, created_at = utcnow e, downloaded_count = 0\<rparr>"

definition commit :: "env \<Rightarrow> user \<Rightarrow> pending list \<Rightarrow> int \<Rightarrow> state \<Rightarrow> state" where
  "commit e user added n s =
     s\<lparr>documents := documents s @ map (\<lambda>(k, p). insert_row e k p) (enumerate 0 added),
       users := map (\<lambda>row. if id_user row = id_user user
                              then row\<lparr>documents_created := documents_created user + n\<rparr>
                              else row) (users s)\<rparr>"

subsection \<open>invoice_generator\<close>

definition invoice_try :: "env \<Rightarrow> user \<Rightarrow> invoice_data \<Rightarrow> state \<Rightarrow> response \<times> state" where
  "invoice_try e user d s =
     (let filename = ''invoice_'' @ fstr (invoice_number d) @ ''_'' @ hex8 e 0 @ ''.pdf'';
          path = path_join GENERATED_FILES_FOLDER filename
      in case generate_invoice_pdf e d path (files s) of
           (Inl err, fs) \<Rightarrow> (GenerationFailed, s\<lparr>files := fs\<rparr>)
         | (Inr _, fs) \<Rightarrow>
             (let doc = \<lparr>user_id = id_user user, document_type = ''invoice'',
                         title = ''Invoice #'' @ fstr (invoice_number d),
                         file_path = path, file_type = ''pdf'',
                         template_used = template_id_inv d,
                         data_json = InvoicePayload d\<rparr>;
                  s' = commit e user [doc] 1 (s\<lparr>files := fs\<rparr>)
              in case url_for (Some (uuid4 e 0)) of
                   Inl err \<Rightarrow> (GenerationFailed, s')
                 | Inr url \<Rightarrow> (Success [(uuid4 e 0, url)], s')))"

definition invoice_generator :: "env \<Rightarrow> nat \<Rightarrow> invoice_data \<Rightarrow> state \<Rightarrow> response \<times> state" where
  "invoice_generator e session_user_id d s =
     (case get_current_user s session_user_id of
        None \<Rightarrow> (Unhandled AttributeError, s)
      | Some user \<Rightarrow>
          if \<not> can_create_document user (documents s) (utcnow e) then (QuotaExceeded, s)
          else invoice_try e user d s)"

subsection \<open>qrcode_generator\<close>

definition vcard_text :: "(string \<rightharpoonup> string) \<Rightarrow> string" where
  "vcard_text d =
     ''BEGIN:VCARD'' @ [CHR 0x0A] @ ''VERSION:3.0'' @ [CHR 0x0A]
     @ ''FN:'' @ fstr (d ''vcard_name'') @ [CHR 0x0A]
     @ ''TEL:'' @ fstr (d ''vcard_phone'') @ [CHR 0x0A]
     @ ''EMAIL:'' @ fstr (d ''vcard_email'') @ [CHR 0x0A]
     @ ''ORG:'' @ fstr (d ''vcard_org'') @ [CHR 0x0A]
     @ ''END:VCARD''"

definition qr_content_of :: "(string \<rightharpoonup> string) \<Rightarrow> qr_data \<Rightarrow> string option" where
  "qr_content_of d q =
     (if type_qr q = ''wifi'' then
        Some (''WIFI:T:'' @ fstr (d ''wifi_security'') @ '';S:'' @ fstr (d ''wifi_ssid'')
              @ '';P:'' @ fstr (d ''wifi_password'') @ '';;'')
      else if type_qr q = ''vcard'' then Some (vcard_text d)
      else if type_qr q = ''upi'' then
        Some (''upi://pay?pa='' @ fstr (d ''upi_id'') @ ''&pn='' @ fstr (d ''upi_name'')
              @ ''&am='' @ fstr (d ''upi_amount''))
      else content_qr q)"

definition pyval_of :: "string option \<Rightarrow> pyval" where
  "pyval_of v = (case v of None \<Rightarrow> PNone | Some s \<Rightarrow> PStr s)"

definition qrcode_try ::
  "env \<Rightarrow> user \<Rightarrow> qr_data \<Rightarrow> string option \<Rightarrow> state \<Rightarrow> response \<times> state" where
  "qrcode_try e user q content s =
     (let filename = ''qrcode_'' @ hex8 e 0 @ ''.'' @ format_qr q;
          path = path_join GENERATED_FILES_FOLDER filename
      in case generate_qr_code e [pyval_of content, PStr path, PInt (size_qr q), PStr (format_qr q)]
                (files s) of
           (Inl err, fs) \<Rightarrow> (GenerationFailed, s\<lparr>files := fs\<rparr>)
         | (Inr _, fs) \<Rightarrow>
             (let doc = \<lparr>user_id = id_user user, document_type = ''qrcode'',
                         title = ''QR Code - '' @ title_str (type_qr q),
                         file_path = path, file_type = format_qr q,
                         template_used = None,
                         data_json = QrPayload (q\<lparr>content_qr := content\<rparr>)\<rparr>;
                  s' = commit e user [doc] 1 (s\<lparr>files := fs\<rparr>)
              in case url_for (Some (uuid4 e 0)) of
                   Inl err \<Rightarrow> (GenerationFailed, s')
                 | Inr url \<Rightarrow> (Success [(uuid4 e 0, url)], s')))"

definition qrcode_generator ::
  "env \<Rightarrow> nat \<Rightarrow> (string \<rightharpoonup> string) \<Rightarrow> state \<Rightarrow> response \<times> state" where
  "qrcode_generator e session_user_id d s =
     (case get_current_user s session_user_id of
        None \<Rightarrow> (Unhandled AttributeError, s)
      | Some user \<Rightarrow>
          if \<not> can_create_document user (documents s) (utcnow e) then (QuotaExceeded, s)
          else (case (case d ''size'' of None \<Rightarrow> Some 300 | Some v \<Rightarrow> py_int v) of
                  None \<Rightarrow> (Unhandled ValueError, s)
                | Some n \<Rightarrow>
                    (let q = \<lparr>type_qr = dict_get d ''type'' ''text'',
                               content_qr = d ''content'',
                               size_qr = n,
                               format_qr = dict_get d ''format'' ''png'',
                               error_correction_qr = dict_get d ''error_correction'' ''M''\<rparr>
                     in qrcode_try e user q (qr_content_of d q) s)))"

subsection \<open>resume_builder\<close>

definition resume_try :: "env \<Rightarrow> user \<Rightarrow> resume_data \<Rightarrow> state \<Rightarrow> response \<times> state" where
  "resume_try e user d s =
     (case full_name d of
        None \<Rightarrow> (GenerationFailed, s)
      | Some name \<Rightarrow>
          (let format_ext = format_res d;
               filename = ''resume_'' @ replace_char (CHR '' '') (CHR ''_'') name @ ''_''
                          @ hex8 e 0 @ ''.'' @ format_ext;
               path = path_join GENERATED_FILES_FOLDER filename
           in case generate_resume_pdf e d path (files s) of
                (Inl err, fs) \<Rightarrow> (GenerationFailed, s\<lparr>files := fs\<rparr>)
              | (Inr _, fs) \<Rightarrow>
                  (let doc = \<lparr>user_id = id_user user, document_type = ''resume'',
                              title = ''Resume - '' @ name,
                              file_path = path, file_type = format_ext,
                              template_used = template_id_res d,
                              data_json = ResumePayload d\<rparr>;
                       s' = commit e user [doc] 1 (s\<lparr>files := fs\<rparr>)
                   in case url_for (Some (uuid4 e 0)) of
                        Inl err \<Rightarrow> (GenerationFailed, s')
                      | Inr url \<Rightarrow> (Success [(uuid4 e 0, url)], s'))))"

definition resume_builder :: "env \<Rightarrow> nat \<Rightarrow> resume_data \<Rightarrow> state \<Rightarrow> response \<times> state" where
  "resume_builder e session_user_id d s =
     (case get_current_user s session_user_id of
        None \<Rightarrow> (Unhandled AttributeError, s)
      | Some user \<Rightarrow>
          if \<not> can_create_document user (documents s) (utcnow e) then (QuotaExceeded, s)
          else resume_try e user d s)"

subsection \<open>certificate_creator\<close>

text \<open>
  What the \<open>try\<close> block has done so far: the files written, the documents
  added to the session, and the list \<open>generated_files\<close>. Each entry of
  \<open>generated_files\<close> carries \<open>url_for(..., document_uuid=document.uuid)\<close>,
  evaluated right after \<open>db.session.add(document)\<close> and before any commit, when
  \<open>document.uuid\<close> is still \<open>None\<close>.
\<close>

record work =
  w_files :: "string \<rightharpoonup> artifact"
  w_added :: "pending list"
  generated_files :: "(string \<times> string) list"

definition certificate_document ::
  "user \<Rightarrow> certificate_data \<Rightarrow> certificate_data \<Rightarrow> string \<Rightarrow> string \<Rightarrow> pending" where
  "certificate_document user certificate_data cert_data name path =
     \<lparr>user_id = id_user user, document_type = ''certificate'',
      title = ''Certificate - '' @ name,
      file_path = path, file_type = ''pdf'',
      template_used = template_id_cert certificate_data,
      data_json = CertificatePayload cert_data\<rparr>"

definition certificate_one ::
  "env \<Rightarrow> user \<Rightarrow> certificate_data \<Rightarrow> certificate_data \<Rightarrow> string \<Rightarrow> work \<Rightarrow> pyerror option \<times> work" where
  "certificate_one e user certificate_data cert_data name w =
     (let filename = ''certificate_'' @ replace_char (CHR '' '') (CHR ''_'') name @ ''_''
                     @ hex8 e (length (w_added w)) @ ''.pdf'';
          path = path_join GENERATED_FILES_FOLDER filename
      in case generate_certificate_pdf e cert_data path (w_files w) of
           (Inl err, fs) \<Rightarrow> (Some err, w\<lparr>w_files := fs\<rparr>)
         | (Inr _, fs) \<Rightarrow>
             (let doc = certificate_document user certificate_data cert_data name path;
                  w' = w\<lparr>w_files := fs, w_added := w_added w @ [doc]\<rparr>
              in case url_for None of
                   Inl err \<Rightarrow> (Some err, w')
                 | Inr url \<Rightarrow>
                     (None, w'\<lparr>generated_files := generated_files w @ [(name, url)]\<rparr>)))"

fun bulk_loop ::
  "env \<Rightarrow> user \<Rightarrow> certificate_data \<Rightarrow> string list \<Rightarrow> work \<Rightarrow> pyerror option \<times> work" where
  "bulk_loop e user certificate_data [] w = (None, w)"
| "bulk_loop e user certificate_data (name # names) w =
     (if strip name \<noteq> [] then
        (case certificate_one e user certificate_data
                (certificate_data\<lparr>recipient_name := Some (strip name)\<rparr>) name w of
           (Some err, w') \<Rightarrow> (Some err, w')
         | (None, w') \<Rightarrow> bulk_loop e user certificate_data names w')
      else bulk_loop e user certificate_data names w)"

definition is_bulk :: "certificate_form \<Rightarrow> bool" where
  "is_bulk form = (case bulk_mode form of None \<Rightarrow> False | Some v \<Rightarrow> v \<noteq> [])"

definition certificate_try ::
  "env \<Rightarrow> user \<Rightarrow> bool \<Rightarrow> certificate_data \<Rightarrow> state \<Rightarrow> response \<times> state" where
  "certificate_try e user bulk certificate_data s =
     (let w0 = \<lparr>w_files = files s, w_added = [], generated_files = []\<rparr>;
          (raised, w) =
            (if bulk \<and> bulk_names certificate_data \<noteq> [] then
               bulk_loop e user certificate_data (bulk_names certificate_data) w0
             else (case recipient_name certificate_data of
                     None \<Rightarrow> (Some AttributeError, w0)
                   | Some name \<Rightarrow> certificate_one e user certificate_data certificate_data name w0))
      in case raised of
           Some err \<Rightarrow> (GenerationFailed, s\<lparr>files := w_files w\<rparr>)
         | None \<Rightarrow>
             (Success (generated_files w),
              commit e user (w_added w) (int (length (generated_files w)))
                (s\<lparr>files := w_files w\<rparr>)))"

definition certificate_creator ::
  "env \<Rightarrow> nat \<Rightarrow> certificate_form \<Rightarrow> state \<Rightarrow> response \<times> state" where
  "certificate_creator e session_user_id form s =
     (case get_current_user s session_user_id of
        None \<Rightarrow> (Unhandled AttributeError, s)
      | Some user \<Rightarrow>
          if \<not> can_create_document user (documents s) (utcnow e) then (QuotaExceeded, s)
          else if is_bulk form \<and> \<not> is_premium user (utcnow e) then (PremiumRequired, s)
          else certificate_try e user (is_bulk form)
                 ((form_fields form)\<lparr>bulk_names :=
                    (if is_bulk form then bulk_names (form_fields form) else [])\<rparr>) s)"

section \<open>Download (app.py)\<close>

text \<open>
  \<open>Document.query.filter_by(uuid=document_uuid, user_id=user.id).first()\<close>,
  then the download counter and the file.
\<close>

datatype download = NotFound | FileNotFound | Sent document artifact | Crashed pyerror

definition query_document :: "document list \<Rightarrow> string \<Rightarrow> nat \<Rightarrow> document option" where
  "query_document docs document_uuid owner =
     find (\<lambda>d. uuid d = document_uuid \<and> user_id d = owner) docs"

fun update_first :: "('a \<Rightarrow> bool) \<Rightarrow> ('a \<Rightarrow> 'a) \<Rightarrow> 'a list \<Rightarrow> 'a list" where
  "update_first P f [] = []"
| "update_first P f (x # xs) = (if P x then f x # xs else x # update_first P f xs)"

definition download_document :: "nat \<Rightarrow> string \<Rightarrow> state \<Rightarrow> download \<times> state" where
  "download_document session_user_id document_uuid s =
     (case get_current_user s session_user_id of
        None \<Rightarrow> (Crashed AttributeError, s)
      | Some user \<Rightarrow>
          (case query_document (documents s) document_uuid (id_user user) of
             None \<Rightarrow> (NotFound, s)
           | Some doc \<Rightarrow>
               (let s' = s\<lparr>documents :=
                            update_first (\<lambda>d. uuid d = document_uuid \<and> user_id d = id_user user)
                              (\<lambda>d. d\<lparr>downloaded_count := downloaded_count d + 1\<rparr>)
                              (documents s)\<rparr>
                in case files s (file_path doc) of
                     None \<Rightarrow> (FileNotFound, s')
                   | Some f \<Rightarrow> (Sent doc f, s'))))"

section \<open>Requests in sequence and in parallel\<close>

text \<open>
  A POST goes to the tool of its route. \<open>run\<close> handles requests one after the
  other, each with its own environment and session user.
\<close>

datatype request =
    Invoice invoice_data
  | Qrcode "string \<rightharpoonup> string"
  | Resume resume_data
  | Certificate certificate_form

fun handle :: "env \<Rightarrow> nat \<Rightarrow> request \<Rightarrow> state \<Rightarrow> response \<times> state" where
  "handle e uid (Invoice d) s = invoice_generator e uid d s"
| "handle e uid (Qrcode d) s = qrcode_generator e uid d s"
| "handle e uid (Resume d) s = resume_builder e uid d s"
| "handle e uid (Certificate form) s = certificate_creator e uid form s"

fun run :: "(env \<times> nat \<times> request) list \<Rightarrow> state \<Rightarrow> state" where
  "run [] s = s"
| "run ((e, uid, req) # rest) s = run rest (snd (handle e uid req s))"

text \<open>
  Two workers serve two invoice requests of one user. Nothing in
  \<open>invoice_generator\<close> locks the user or the table between the quota check and
  the commit, so both workers can load the user and evaluate
  \<open>can_create_document\<close> on the same state before either commits; the commits
  then follow one another.
\<close>

definition two_workers_invoice ::
  "env \<Rightarrow> env \<Rightarrow> nat \<Rightarrow> invoice_data \<Rightarrow> invoice_data \<Rightarrow> state \<Rightarrow> (response \<times> response) \<times> state" where
  "two_workers_invoice ea eb uid da db s =
     (case get_current_user s uid of
        None \<Rightarrow> ((Unhandled AttributeError, Unhandled AttributeError), s)
      | Some user \<Rightarrow>
          (let pass_a = can_create_document user (documents s) (utcnow ea);
               pass_b = can_create_document user (documents s) (utcnow eb);
               (ra, s1) = (if pass_a then invoice_try ea user da s else (QuotaExceeded, s));
               (rb, s2) = (if pass_b then invoice_try eb user db s1 else (QuotaExceeded, s1))
           in ((ra, rb), s2)))"

section \<open>The specification's notions\<close>

text \<open>
  The quota rule in the specification's words: a user is premium-eligible when
  the plan is \<open>premium\<close> and the expiry is strictly after the clock; the
  artifacts of the current month are those of the user created at or after the
  first instant of the clock's calendar month.
\<close>

definition premium_eligible :: "user \<Rightarrow> datetime \<Rightarrow> bool" where
  "premium_eligible u clock =
     (subscription_plan u = ''premium''
      \<and> (case subscription_expires u of None \<Rightarrow> False | Some x \<Rightarrow> dt_key clock < dt_key x))"

definition first_instant_of_month :: "datetime \<Rightarrow> datetime" where
  "first_instant_of_month clock =
     \<lparr>year = year clock, month = month clock, day = 1, hour = 0, minute = 0, second = 0,
      microsecond = 0\<rparr>"

definition artifacts_this_month :: "user \<Rightarrow> document list \<Rightarrow> datetime \<Rightarrow> document list" where
  "artifacts_this_month u docs clock =
     filter (\<lambda>d. user_id d = id_user u
                 \<and> dt_key (first_instant_of_month clock) \<le> dt_key (created_at d)) docs"


text \<open>
  The invoice figures in the specification's words: an item's amount is quantity
  times rate, the subtotal is the sum of the amounts (added in order, from zero).
  \<open>rederive\<close> computes the table again from a stored payload.
\<close>

definition item_amount :: "invoice_item \<Rightarrow> rat" where
  "item_amount i = fmul (fl (quantity i)) (fl (rate i))"

definition sum_amounts :: "rat list \<Rightarrow> rat" where
  "sum_amounts amounts = foldl fadd 0 amounts"

definition rederive :: "payload \<Rightarrow> invoice_table option" where
  "rederive p = (case p of InvoicePayload d \<Rightarrow> Some (table_of (compute_invoice d)) | _ \<Rightarrow> None)"


text \<open>The fixed-field Wi-Fi string of the specification.\<close>

definition wifi_string :: "string \<Rightarrow> string \<Rightarrow> string \<Rightarrow> string" where
  "wifi_string security ssid password =
     ''WIFI:T:'' @ security @ '';S:'' @ ssid @ '';P:'' @ password @ '';;''"


text \<open>The names of a bulk request that are not blank.\<close>

definition non_blank :: "string list \<Rightarrow> string list" where
  "non_blank names = filter (\<lambda>name. strip name \<noteq> []) names"


text \<open>
  The counter invariant: every user's \<open>documents_created\<close> equals the number of
  document rows with that user's id; and the counters of a later state are not
  below those of an earlier one, user by user.
\<close>

definition rows_of :: "state \<Rightarrow> nat \<Rightarrow> nat" where
  "rows_of s owner = length (filter (\<lambda>d. user_id d = owner) (documents s))"

definition counter_matches :: "state \<Rightarrow> bool" where
  "counter_matches s = list_all (\<lambda>u. documents_created u = int (rows_of s (id_user u))) (users s)"

definition never_decreased :: "state \<Rightarrow> state \<Rightarrow> bool" where
  "never_decreased s s' =
     list_all2 (\<lambda>u u'. id_user u' = id_user u \<and> documents_created u \<le> documents_created u')
       (users s) (users s')"

text \<open>
  What one request can do to the ledger: nothing (at most files are written), or
  one commit of rows that all belong to one existing user, with the counter
  raised by their number.
\<close>

definition ledger_step :: "env \<Rightarrow> state \<Rightarrow> state \<Rightarrow> bool" where
  "ledger_step e s s' =
     ((\<exists>fs. s' = s\<lparr>files := fs\<rparr>)
      \<or> (\<exists>user added fs. user \<in> set (users s)
            \<and> (\<forall>p\<in>set added. user_id p = id_user user)
            \<and> s' = commit e user added (int (length added)) (s\<lparr>files := fs\<rparr>)))"


section \<open>Example data\<close>

definition jan :: "nat \<Rightarrow> nat \<Rightarrow> datetime" where
  "jan d h = \<lparr>year = 2025, month = 1, day = d, hour = h, minute = 30, second = 0, microsecond = 0\<rparr>"

definition dec :: "nat \<Rightarrow> datetime" where
  "dec d = \<lparr>year = 2024, month = 12, day = d, hour = 23, minute = 59, second = 59, microsecond = 999999\<rparr>"

definition doc_of :: "nat \<Rightarrow> string \<Rightarrow> datetime \<Rightarrow> document" where
  "doc_of owner ident t =
     \<lparr>user_id = owner, document_type = ''qrcode'', title = ''QR Code - Text'',
      file_path = ''generated_files/qrcode_'' @ ident @ ''.png'', file_type = ''png'',
      template_used = None,
      data_json = QrPayload \<lparr>type_qr = ''text'', content_qr = Some ''hello'', size_qr = 300,
                              format_qr = ''png'', error_correction_qr = ''M''\<rparr>,
      uuid = ident, created_at = t, downloaded_count = 0\<rparr>"

definition alice :: user where
  "alice = \<lparr>id_user = 1, subscription_plan = ''free'', subscription_expires = None,
             documents_created = 5\<rparr>"

definition alice_docs :: "document list" where
  "alice_docs = [doc_of 1 ''d0'' (dec 31), doc_of 1 ''d1'' (jan 1 0), doc_of 1 ''d2'' (jan 2 9),
                 doc_of 1 ''d3'' (jan 2 10), doc_of 1 ''d4'' (jan 14 8)]"

definition example_invoice :: invoice_data where
  "example_invoice =
     \<lparr>company_name = Some ''Acme'', company_address = None, company_email = None,
      company_phone = None, client_name = Some ''Bob'', client_address = None,
      client_email = None, invoice_number = Some ''INV-7'', invoice_date = None,
      due_date = None,
      items = [\<lparr>description = ''design'', quantity = 2, rate = 100\<rparr>,
               \<lparr>description = ''hosting'', quantity = 1, rate = 50\<rparr>],
      tax_rate = 5, discount = 10, notes_inv = Some [], template_id_inv = None\<rparr>"

definition example_env :: env where
  "example_env =
     \<lparr>utcnow = jan 15 12, hex8 = (\<lambda>k. ''0a1b2c3'' @ [''0123456789abcdef'' ! (k mod 16)]),
      uuid4 = (\<lambda>k. ''6f1c-'' @ [''0123456789abcdef'' ! (k mod 16)]),
      render_ok = (\<lambda>p. True), qr_fits = (\<lambda>c. True)\<rparr>"

definition example_state :: state where
  "example_state = \<lparr>users = [alice], documents = alice_docs, files = Map.empty\<rparr>"

definition wifi_request :: "string \<rightharpoonup> string" where
  "wifi_request = [''type'' \<mapsto> ''wifi'', ''wifi_security'' \<mapsto> ''WPA'', ''wifi_ssid'' \<mapsto> ''Home'',
                   ''wifi_password'' \<mapsto> ''secret'', ''error_correction'' \<mapsto> ''H'']"

definition bob :: user where
  "bob = \<lparr>id_user = 2, subscription_plan = ''free'', subscription_expires = None,
           documents_created = 0\<rparr>"

definition example_image :: image where
  "example_image = SvgPathImage \<lparr>version = 1, error_correction = ERROR_CORRECT_M, box_size = 10,
                                  border = 4, qr_content = PStr ''hello''\<rparr>"

definition shared_state :: state where
  "shared_state = \<lparr>users = [alice, bob], documents = alice_docs,
                    files = [''generated_files/qrcode_d1.png'' \<mapsto> QrImage example_image]\<rparr>"

definition text_request :: "string \<rightharpoonup> string" where
  "text_request = [''type'' \<mapsto> ''text'', ''content'' \<mapsto> ''hello'', ''error_correction'' \<mapsto> ''H'']"

definition carol :: user where
  "carol = \<lparr>id_user = 3, subscription_plan = ''premium'',
             subscription_expires = Some \<lparr>year = 2025, month = 6, day = 30, hour = 0, minute = 0,
                                          second = 0, microsecond = 0\<rparr>,
             documents_created = 0\<rparr>"

definition premium_state :: state where
  "premium_state = \<lparr>users = [alice, carol], documents = alice_docs, files = Map.empty\<rparr>"

definition course_fields :: certificate_data where
  "course_fields = \<lparr>recipient_name = Some ''Carol'', course_name = Some ''Isabelle'',
                     completion_date = Some ''2025-01-15'', instructor_name = Some ''Tobias'',
                     organization = Some ''TUM'', description_cert = None,
                     template_id_cert = None, bulk_names = []\<rparr>"

definition bulk_form :: certificate_form where
  "bulk_form = \<lparr>form_fields = course_fields\<lparr>bulk_names := [''Alice'', '''', '' '', ''Bob'']\<rparr>,
                 bulk_mode = Some ''on''\<rparr>"

definition example_env_b :: env where
  "example_env_b =
     \<lparr>utcnow = jan 15 12, hex8 = (\<lambda>k. ''9f8e7d6'' @ [''0123456789abcdef'' ! (k mod 16)]),
      uuid4 = (\<lambda>k. ''b2d4-'' @ [''0123456789abcdef'' ! (k mod 16)]),
      render_ok = (\<lambda>p. True), qr_fits = (\<lambda>c. True)\<rparr>"


section \<open>The quota rule\<close>

lemma is_premium_eligible: "is_premium u clock = premium_eligible u clock"
  by (simp add: is_premium_def premium_eligible_def dt_gt_def split: option.splits)

lemma can_create_document_eq:
  "can_create_document u docs clock =
     (premium_eligible u clock \<or> length (artifacts_this_month u docs clock) < 5)"
  by (simp add: can_create_document_def is_premium_eligible artifacts_this_month_def
      first_instant_of_month_def dt_key_def dt_ge_def Let_def)

lemma prior_month_not_counted:
  "(year (created_at d), month (created_at d)) < (year clock, month clock)
   \<Longrightarrow> d \<notin> set (artifacts_this_month u docs clock)"
  by (auto simp add: artifacts_this_month_def first_instant_of_month_def dt_key_def)

text \<open>
  C3: \<open>can_create_document\<close> holds exactly when the user is premium-eligible
  (plan \<open>premium\<close> and expiry strictly after the clock) or fewer than five of the
  user's documents were created at or after the first instant of the clock's
  calendar month. A user who is not premium-eligible passes with four such
  documents and fails with five, and a document of an earlier month is never among
  those counted.
\<close>

theorem can_create_document_quota:
  "(can_create_document u docs clock \<longleftrightarrow>
      premium_eligible u clock \<or> length (artifacts_this_month u docs clock) < 5)
   \<and> (\<not> premium_eligible u clock \<and> length (artifacts_this_month u docs clock) = 4
        \<longrightarrow> can_create_document u docs clock)
   \<and> (\<not> premium_eligible u clock \<and> length (artifacts_this_month u docs clock) = 5
        \<longrightarrow> \<not> can_create_document u docs clock)
   \<and> (\<forall>d. (year (created_at d), month (created_at d)) < (year clock, month clock)
        \<longrightarrow> d \<notin> set (artifacts_this_month u docs clock))"
  using prior_month_not_counted by (simp add: can_create_document_eq)

theorem can_create_document_quota_witness:
  "can_create_document alice alice_docs (jan 15 12)
   \<and> length (artifacts_this_month alice alice_docs (jan 15 12)) = 4
   \<and> \<not> can_create_document alice (alice_docs @ [doc_of 1 ''d5'' (jan 15 11)]) (jan 15 12)
   \<and> doc_of 1 ''d0'' (dec 31) \<notin> set (artifacts_this_month alice alice_docs (jan 15 12))"
  using can_create_document_quota [of alice alice_docs "jan 15 12"]
        can_create_document_quota [of alice "alice_docs @ [doc_of 1 ''d5'' (jan 15 11)]" "jan 15 12"]
  by (simp add: premium_eligible_def artifacts_this_month_def first_instant_of_month_def
      dt_key_def alice_def alice_docs_def doc_of_def jan_def dec_def)

section \<open>Shared facts\<close>

lemma alice_may_create: "can_create_document alice alice_docs (jan 15 12)"
  by (simp add: can_create_document_def is_premium_def dt_ge_def dt_key_def alice_def
      alice_docs_def doc_of_def jan_def dec_def)

lemma generate_qr_code_second: "generate_qr_code = generate_qr_code_2"
  by (simp add: generate_qr_code_def import_from_def utils_module_def)

lemma unique_uuid:
  "distinct (map uuid docs) \<Longrightarrow> d \<in> set docs \<Longrightarrow> d' \<in> set docs \<Longrightarrow> uuid d = uuid d' \<Longrightarrow> d = d'"
  by (auto simp add: distinct_map inj_on_def)

lemma second_definition_returns_None:
  "generate_qr_code_2 e [c, PStr path, PInt n, PStr fmt] fs = (Inr None, fs)"
  by (simp add: generate_qr_code_2_def qr_try_body_def arg_def Let_def split: sum.splits)

lemma qrcode_try_commits:
  "qrcode_try e user q c s =
     (Success [(uuid4 e 0, ''/download/'' @ uuid4 e 0)],
      commit e user
        [\<lparr>user_id = id_user user, document_type = ''qrcode'',
          title = ''QR Code - '' @ title_str (type_qr q),
          file_path = path_join GENERATED_FILES_FOLDER (''qrcode_'' @ hex8 e 0 @ ''.'' @ format_qr q),
          file_type = format_qr q, template_used = None,
          data_json = QrPayload (q\<lparr>content_qr := c\<rparr>)\<rparr>] 1 s)"
  by (simp add: qrcode_try_def generate_qr_code_second second_definition_returns_None
      url_for_def Let_def)

lemma premium_can_create: "is_premium user now \<Longrightarrow> can_create_document user docs now"
  by (simp add: can_create_document_def)

lemma carol_premium: "is_premium carol (utcnow example_env)"
  by (simp add: is_premium_def dt_gt_def dt_key_def carol_def example_env_def jan_def)

lemma invoice_try_ok:
  assumes "render_ok e (path_join GENERATED_FILES_FOLDER
             (''invoice_'' @ fstr (invoice_number d) @ ''_'' @ hex8 e 0 @ ''.pdf''))"
  shows "invoice_try e user d s =
     (Success [(uuid4 e 0, ''/download/'' @ uuid4 e 0)],
      commit e user
        [\<lparr>user_id = id_user user, document_type = ''invoice'',
          title = ''Invoice #'' @ fstr (invoice_number d),
          file_path = path_join GENERATED_FILES_FOLDER
             (''invoice_'' @ fstr (invoice_number d) @ ''_'' @ hex8 e 0 @ ''.pdf''),
          file_type = ''pdf'', template_used = template_id_inv d,
          data_json = InvoicePayload d\<rparr>] 1
        (s\<lparr>files := (files s)(path_join GENERATED_FILES_FOLDER
             (''invoice_'' @ fstr (invoice_number d) @ ''_'' @ hex8 e 0 @ ''.pdf'')
             \<mapsto> InvoicePdf (table_of (compute_invoice d)))\<rparr>))"
  using assms by (simp add: invoice_try_def generate_invoice_pdf_def url_for_def Let_def)


section \<open>Invoice arithmetic\<close>

lemma invoice_loop_rows:
  "invoice_loop xs acc rows =
     (foldl fadd acc (map item_amount xs),
      rows @ map (\<lambda>i. \<lparr>row_description = description i, row_quantity = quantity i,
                          row_rate = fl (rate i), row_amount = item_amount i\<rparr>) xs)"
  by (induction xs arbitrary: acc rows) (simp_all add: item_amount_def Let_def)

lemma example_totals:
  "compute_invoice example_invoice =
     \<lparr>items_data = [\<lparr>row_description = ''design'', row_quantity = 2, row_rate = 100, row_amount = 200\<rparr>,
                    \<lparr>row_description = ''hosting'', row_quantity = 1, row_rate = 50, row_amount = 50\<rparr>],
      subtotal = 250, discount_amount = 25, after_discount = 225, tax_amount = 45 / 4,
      total_inv = 945 / 4\<rparr>"
  by code_simp

lemma invoice_try_success:
  assumes "invoice_try e user d s = (Success r, s')"
  shows "\<exists>doc. documents s' = documents s @ [doc]
               \<and> data_json doc = InvoicePayload d
               \<and> files s' (file_path doc) = map_option InvoicePdf (rederive (data_json doc))"
  using assms
  by (auto simp add: invoice_try_def generate_invoice_pdf_def commit_def insert_row_def
      rederive_def Let_def split: if_splits sum.splits)

text \<open>
  C4: for every invoice payload the composer computes, in binary64 arithmetic,
  amount = quantity \<times> rate per item, subtotal = the sum of the amounts, discount
  amount = subtotal \<times> (discount / 100), post-discount = subtotal - discount amount,
  tax amount = post-discount \<times> (tax_rate / 100) and total = post-discount + tax
  amount. Items (2 at 100, 1 at 50) with discount 10 and tax 5 give 250, 25, 225,
  11.25 and 236.25 exactly. When the invoice is generated, the table in the file
  is the one computed again from the payload stored in the document.
\<close>

theorem invoice_arithmetic:
  "(let t = compute_invoice d in
      map row_amount (items_data t) = map item_amount (items d)
      \<and> subtotal t = sum_amounts (map item_amount (items d))
      \<and> discount_amount t = fmul (subtotal t) (fdiv (discount d) 100)
      \<and> after_discount t = fsub (subtotal t) (discount_amount t)
      \<and> tax_amount t = fmul (after_discount t) (fdiv (tax_rate d) 100)
      \<and> total_inv t = fadd (after_discount t) (tax_amount t))
   \<and> (let t = compute_invoice example_invoice in
        subtotal t = 250 \<and> discount_amount t = 25 \<and> after_discount t = 225
        \<and> tax_amount t = 45 / 4 \<and> total_inv t = 945 / 4)
   \<and> (invoice_try e user d s = (Success r, s') \<longrightarrow>
        (\<exists>doc. documents s' = documents s @ [doc]
               \<and> data_json doc = InvoicePayload d
               \<and> files s' (file_path doc) = map_option InvoicePdf (rederive (data_json doc))))"
proof -
  have "let t = compute_invoice d in
      map row_amount (items_data t) = map item_amount (items d)
      \<and> subtotal t = sum_amounts (map item_amount (items d))
      \<and> discount_amount t = fmul (subtotal t) (fdiv (discount d) 100)
      \<and> after_discount t = fsub (subtotal t) (discount_amount t)
      \<and> tax_amount t = fmul (after_discount t) (fdiv (tax_rate d) 100)
      \<and> total_inv t = fadd (after_discount t) (tax_amount t)"
    by (simp add: compute_invoice_def invoice_loop_rows sum_amounts_def Let_def comp_def)
  moreover have "let t = compute_invoice example_invoice in
        subtotal t = 250 \<and> discount_amount t = 25 \<and> after_discount t = 225
        \<and> tax_amount t = 45 / 4 \<and> total_inv t = 945 / 4"
    by (simp add: example_totals)
  ultimately show ?thesis using invoice_try_success by blast
qed

theorem invoice_arithmetic_witness:
  "(\<exists>doc. documents (snd (invoice_generator example_env 1 example_invoice example_state))
            = alice_docs @ [doc]
          \<and> data_json doc = InvoicePayload example_invoice
          \<and> files (snd (invoice_generator example_env 1 example_invoice example_state)) (file_path doc)
            = Some (InvoicePdf \<lparr>item_rows =
                 [\<lparr>row_description = ''design'', row_quantity = 2, row_rate = 100, row_amount = 200\<rparr>,
                  \<lparr>row_description = ''hosting'', row_quantity = 1, row_rate = 50, row_amount = 50\<rparr>],
                 subtotal_cell = 250, discount_cell = 25, tax_cell = 45 / 4, total_cell = 945 / 4\<rparr>))"
proof -
  have ok: "can_create_document alice alice_docs (jan 15 12)"
    by (simp add: can_create_document_def is_premium_def dt_ge_def dt_key_def alice_def
        alice_docs_def doc_of_def jan_def dec_def)
  obtain r s' where run: "invoice_try example_env alice example_invoice example_state = (r, s')"
    by (cases "invoice_try example_env alice example_invoice example_state")
  have "r = Success [(''6f1c-0'', ''/download/6f1c-0'')]"
    using run by (auto simp add: invoice_try_def generate_invoice_pdf_def url_for_def example_env_def Let_def)
  with run have "invoice_try example_env alice example_invoice example_state
      = (Success [(''6f1c-0'', ''/download/6f1c-0'')], s')" by simp
  from invoice_arithmetic [of example_invoice example_env alice example_state _ s'] this
  obtain doc where d: "documents s' = documents example_state @ [doc]"
      "data_json doc = InvoicePayload example_invoice"
      "files s' (file_path doc) = map_option InvoicePdf (rederive (data_json doc))"
    by blast
  have gen: "invoice_generator example_env 1 example_invoice example_state = (r, s')"
    using ok run by (simp add: invoice_generator_def get_current_user_def example_state_def
        example_env_def alice_def)
  show ?thesis
    using d gen by (simp add: rederive_def example_totals table_of_def example_state_def)
qed


section \<open>QR content\<close>

text \<open>
  C8: the content of a QR request of type \<open>wifi\<close> is exactly
  \<open>WIFI:T:<security>;S:<ssid>;P:<password>;;\<close> (security \<open>WPA\<close>, ssid \<open>Home\<close>,
  password \<open>secret\<close> give \<open>WIFI:T:WPA;S:Home;P:secret;;\<close>); for a type other than
  \<open>wifi\<close>, \<open>vcard\<close> and \<open>upi\<close> it is the \<open>content\<close> field unchanged. This is the
  content stored with the document whenever the request succeeds.
\<close>

theorem qr_content_derivation:
  "(type_qr q = ''wifi'' \<longrightarrow>
      qr_content_of d q = Some (wifi_string (fstr (d ''wifi_security'')) (fstr (d ''wifi_ssid''))
                                  (fstr (d ''wifi_password''))))
   \<and> (type_qr q \<notin> {''wifi'', ''vcard'', ''upi''} \<longrightarrow> qr_content_of d q = content_qr q)
   \<and> wifi_string ''WPA'' ''Home'' ''secret'' = ''WIFI:T:WPA;S:Home;P:secret;;''
   \<and> (qrcode_generator e uid d s = (Success r, s') \<longrightarrow>
        (\<exists>doc p. documents s' = documents s @ [doc] \<and> data_json doc = QrPayload p
           \<and> (dict_get d ''type'' ''text'' = ''wifi'' \<longrightarrow>
                content_qr p = Some (wifi_string (fstr (d ''wifi_security''))
                                       (fstr (d ''wifi_ssid'')) (fstr (d ''wifi_password''))))
           \<and> (dict_get d ''type'' ''text'' \<notin> {''wifi'', ''vcard'', ''upi''} \<longrightarrow>
                content_qr p = d ''content'')))"
proof -
  have a: "\<And>q. type_qr q = ''wifi'' \<longrightarrow>
      qr_content_of d q = Some (wifi_string (fstr (d ''wifi_security'')) (fstr (d ''wifi_ssid''))
                                  (fstr (d ''wifi_password'')))"
    by (simp add: qr_content_of_def wifi_string_def)
  have b: "\<And>q. type_qr q \<notin> {''wifi'', ''vcard'', ''upi''} \<longrightarrow> qr_content_of d q = content_qr q"
    by (simp add: qr_content_of_def)
  have c: "wifi_string ''WPA'' ''Home'' ''secret'' = ''WIFI:T:WPA;S:Home;P:secret;;''"
    by (simp add: wifi_string_def)
  have e2e: "qrcode_generator e uid d s = (Success r, s') \<longrightarrow>
        (\<exists>doc p. documents s' = documents s @ [doc] \<and> data_json doc = QrPayload p
           \<and> (dict_get d ''type'' ''text'' = ''wifi'' \<longrightarrow>
                content_qr p = Some (wifi_string (fstr (d ''wifi_security''))
                                       (fstr (d ''wifi_ssid'')) (fstr (d ''wifi_password''))))
           \<and> (dict_get d ''type'' ''text'' \<notin> {''wifi'', ''vcard'', ''upi''} \<longrightarrow>
                content_qr p = d ''content''))"
  proof
    assume "qrcode_generator e uid d s = (Success r, s')"
    then show "\<exists>doc p. documents s' = documents s @ [doc] \<and> data_json doc = QrPayload p
           \<and> (dict_get d ''type'' ''text'' = ''wifi'' \<longrightarrow>
                content_qr p = Some (wifi_string (fstr (d ''wifi_security''))
                                       (fstr (d ''wifi_ssid'')) (fstr (d ''wifi_password''))))
           \<and> (dict_get d ''type'' ''text'' \<notin> {''wifi'', ''vcard'', ''upi''} \<longrightarrow>
                content_qr p = d ''content'')"
      by (auto simp add: qrcode_generator_def qrcode_try_def commit_def insert_row_def
          qr_content_of_def wifi_string_def Let_def
          split: option.splits if_splits prod.splits sum.splits)
  qed
  show ?thesis using a b c e2e by blast
qed

theorem qr_content_derivation_witness:
  "\<exists>doc p. documents (snd (qrcode_generator example_env 1 wifi_request example_state))
             = alice_docs @ [doc]
           \<and> data_json doc = QrPayload p
           \<and> content_qr p = Some ''WIFI:T:WPA;S:Home;P:secret;;''"
proof -
  obtain r s' where run: "qrcode_generator example_env 1 wifi_request example_state = (r, s')"
    by (cases "qrcode_generator example_env 1 wifi_request example_state")
  have "r = Success [(''6f1c-0'', ''/download/6f1c-0'')]"
    using run alice_may_create
    by (auto simp add: qrcode_generator_def qrcode_try_def get_current_user_def
        generate_qr_code_second generate_qr_code_2_def url_for_def
        example_state_def example_env_def wifi_request_def alice_def Let_def
        split: sum.splits)
  with run have "qrcode_generator example_env 1 wifi_request example_state
                   = (Success [(''6f1c-0'', ''/download/6f1c-0'')], s')" by simp
  with qr_content_derivation [of _ wifi_request example_env 1 example_state _ s']
  obtain doc p where "documents s' = documents example_state @ [doc]" "data_json doc = QrPayload p"
    "dict_get wifi_request ''type'' ''text'' = ''wifi'' \<longrightarrow>
       content_qr p = Some (wifi_string (fstr (wifi_request ''wifi_security''))
                              (fstr (wifi_request ''wifi_ssid'')) (fstr (wifi_request ''wifi_password'')))"
    by blast
  then show ?thesis using run
    by (auto simp add: dict_get_def wifi_request_def fstr_def wifi_string_def example_state_def)
qed


section \<open>Owner-scoped lookup\<close>

text \<open>
  C6: a download returns a document only when that document carries the requested
  identifier and belongs to the requesting user; the identifier of a document that
  belongs to another user gives \<open>NotFound\<close> and leaves the state unchanged
  (identifiers are unique in the table).
\<close>

theorem download_scoped_to_owner:
  "(download_document uid ident s = (Sent doc f, s') \<longrightarrow>
      doc \<in> set (documents s) \<and> uuid doc = ident \<and> user_id doc = uid)
   \<and> (get_current_user s uid = Some u \<and> distinct (map uuid (documents s))
        \<and> other \<in> set (documents s) \<and> uuid other = ident \<and> user_id other \<noteq> uid
        \<longrightarrow> query_document (documents s) ident uid = None
            \<and> download_document uid ident s = (NotFound, s))"
proof -
  have sent: "download_document uid ident s = (Sent doc f, s') \<longrightarrow>
      doc \<in> set (documents s) \<and> uuid doc = ident \<and> user_id doc = uid"
  proof
    assume a: "download_document uid ident s = (Sent doc f, s')"
    then obtain user where u: "find (\<lambda>u. id_user u = uid) (users s) = Some user"
      and q: "find (\<lambda>d. uuid d = ident \<and> user_id d = id_user user) (documents s) = Some doc"
      by (auto simp add: download_document_def get_current_user_def query_document_def Let_def
          split: option.splits)
    from u have "id_user user = uid" by (auto simp add: find_Some_iff)
    moreover from q have "doc \<in> set (documents s) \<and> uuid doc = ident \<and> user_id doc = id_user user"
      by (auto simp add: find_Some_iff)
    ultimately show "doc \<in> set (documents s) \<and> uuid doc = ident \<and> user_id doc = uid" by simp
  qed
  have hidden: "get_current_user s uid = Some u \<and> distinct (map uuid (documents s))
        \<and> other \<in> set (documents s) \<and> uuid other = ident \<and> user_id other \<noteq> uid
        \<longrightarrow> query_document (documents s) ident uid = None
            \<and> download_document uid ident s = (NotFound, s)"
  proof
    assume h: "get_current_user s uid = Some u \<and> distinct (map uuid (documents s))
        \<and> other \<in> set (documents s) \<and> uuid other = ident \<and> user_id other \<noteq> uid"
    then have idu: "id_user u = uid"
      by (auto simp add: get_current_user_def find_Some_iff)
    have "\<And>d. d \<in> set (documents s) \<Longrightarrow> uuid d = ident \<Longrightarrow> d = other"
      using h unique_uuid [of "documents s" _ other] by simp
    then have none: "query_document (documents s) ident uid = None"
      using h by (auto simp add: query_document_def find_None_iff)
    then show "query_document (documents s) ident uid = None
            \<and> download_document uid ident s = (NotFound, s)"
      using h idu by (simp add: download_document_def)
  qed
  show ?thesis using sent hidden by blast
qed

theorem download_scoped_to_owner_witness:
  "download_document 2 ''d1'' shared_state = (NotFound, shared_state)
   \<and> fst (download_document 1 ''d1'' shared_state) = Sent (doc_of 1 ''d1'' (jan 1 0)) (QrImage example_image)"
proof -
  have d: "distinct (map uuid (documents shared_state))"
    by (simp add: shared_state_def alice_docs_def doc_of_def)
  have u: "get_current_user shared_state 2 = Some bob"
    by (simp add: get_current_user_def shared_state_def alice_def bob_def)
  have o: "doc_of 1 ''d1'' (jan 1 0) \<in> set (documents shared_state)
           \<and> uuid (doc_of 1 ''d1'' (jan 1 0)) = ''d1'' \<and> user_id (doc_of 1 ''d1'' (jan 1 0)) \<noteq> 2"
    by (simp add: shared_state_def alice_docs_def doc_of_def)
  have nf: "download_document 2 ''d1'' shared_state = (NotFound, shared_state)"
    using download_scoped_to_owner [of 2 "''d1''" shared_state _ _ _ bob "doc_of 1 ''d1'' (jan 1 0)"] d u o
    by blast
  obtain r s' where run: "download_document 1 ''d1'' shared_state = (r, s')"
    by (cases "download_document 1 ''d1'' shared_state")
  then have "r = Sent (doc_of 1 ''d1'' (jan 1 0)) (QrImage example_image)"
    by (auto simp add: download_document_def get_current_user_def query_document_def
        shared_state_def alice_docs_def doc_of_def alice_def bob_def Let_def)
  then show ?thesis using nf run by simp
qed


section \<open>The QR code path\<close>



text \<open>
  C2 fails on the QR path: for the request \<open>type=text, content=hello\<close> of a
  user with quota left, nothing is written at the artifact's path, yet the
  response is a success, the document row is committed and the counter goes from
  5 to 6.
\<close>

theorem qr_row_without_file:
  "fst (qrcode_generator example_env 1 text_request example_state)
     = Success [(''6f1c-0'', ''/download/6f1c-0'')]
   \<and> map file_path (documents (snd (qrcode_generator example_env 1 text_request example_state)))
     = map file_path alice_docs @ [''generated_files/qrcode_0a1b2c30.png'']
   \<and> files (snd (qrcode_generator example_env 1 text_request example_state))
        ''generated_files/qrcode_0a1b2c30.png'' = None
   \<and> map documents_created (users example_state) = [5]
   \<and> map documents_created (users (snd (qrcode_generator example_env 1 text_request example_state))) = [6]"
  using alice_may_create
  by (simp add: qrcode_generator_def qrcode_try_commits commit_def insert_row_def
      get_current_user_def example_state_def example_env_def text_request_def alice_def
      dict_get_def path_join_def GENERATED_FILES_FOLDER_def Let_def)

text \<open>
  C9 fails: a call that asks for error-correction level \<open>H\<close> gets a code built
  with \<open>ERROR_CORRECT_M\<close> from the second definition, the first definition builds
  with \<open>ERROR_CORRECT_M\<close> as well, and the tool records the requested \<open>H\<close> in the
  stored payload without passing it on.
\<close>

theorem qr_error_correction_fixed:
  "generate_qr_code example_env [PStr ''hello'', PInt 300, PStr ''png'', PStr ''H''] Map.empty
     = (Inr (Some (PilImage \<lparr>version = 1, error_correction = ERROR_CORRECT_M, box_size = 10,
                              border = 4, qr_content = PStr ''hello''\<rparr>
                     (PStr ''#000000'') (PStr ''#ffffff'') 300)), Map.empty)
   \<and> fst (generate_qr_code_1 example_env
             [PStr ''hello'', PStr ''generated_files/qrcode_0a1b2c30.png'', PInt 300, PStr ''png'']
             Map.empty) = Inr None
   \<and> snd (generate_qr_code_1 example_env
             [PStr ''hello'', PStr ''generated_files/qrcode_0a1b2c30.png'', PInt 300, PStr ''png'']
             Map.empty) ''generated_files/qrcode_0a1b2c30.png''
       = Some (QrImage (PilImage \<lparr>version = 1, error_correction = ERROR_CORRECT_M, box_size = 10,
                              border = 4, qr_content = PStr ''hello''\<rparr>
                     (PStr ''black'') (PStr ''white'') 300))
   \<and> map (\<lambda>doc. case data_json doc of QrPayload q \<Rightarrow> error_correction_qr q | _ \<Rightarrow> [])
         (documents (snd (qrcode_generator example_env 1 text_request example_state)))
       = [''M'', ''M'', ''M'', ''M'', ''M'', ''H'']"
proof -
  have l: "lower ''png'' \<noteq> ''svg''"
    by (simp add: lower_def to_lower_def upper_letters_def lower_letters_def)
  have a: "generate_qr_code example_env [PStr ''hello'', PInt 300, PStr ''png'', PStr ''H''] Map.empty
     = (Inr (Some (PilImage \<lparr>version = 1, error_correction = ERROR_CORRECT_M, box_size = 10,
                              border = 4, qr_content = PStr ''hello''\<rparr>
                     (PStr ''#000000'') (PStr ''#ffffff'') 300)), Map.empty)"
    using l by (simp add: generate_qr_code_second generate_qr_code_2_def qr_try_body_def arg_def
        QRCode_make_def resize_def example_env_def Let_def)
  have b: "generate_qr_code_1 example_env
             [PStr ''hello'', PStr ''generated_files/qrcode_0a1b2c30.png'', PInt 300, PStr ''png'']
             Map.empty
       = (Inr None, [''generated_files/qrcode_0a1b2c30.png'' \<mapsto>
             QrImage (PilImage \<lparr>version = 1, error_correction = ERROR_CORRECT_M, box_size = 10,
                              border = 4, qr_content = PStr ''hello''\<rparr>
                     (PStr ''black'') (PStr ''white'') 300)])"
    using l by (simp add: generate_qr_code_1_def arg_def QRCode_make_def resize_def img_save_def
        example_env_def Let_def)
  have c: "map (\<lambda>doc. case data_json doc of QrPayload q \<Rightarrow> error_correction_qr q | _ \<Rightarrow> [])
         (documents (snd (qrcode_generator example_env 1 text_request example_state)))
       = [''M'', ''M'', ''M'', ''M'', ''M'', ''H'']"
    using alice_may_create
    by (simp add: qrcode_generator_def qrcode_try_commits commit_def insert_row_def
      get_current_user_def example_state_def example_env_def text_request_def alice_def
      alice_docs_def doc_of_def dict_get_def Let_def)
  show ?thesis using a b c by simp
qed


section \<open>Bulk certificates\<close>

lemma certificate_one_raises:
  "\<exists>err w'. certificate_one e user cd cert name w = (Some err, w')"
  by (simp add: certificate_one_def generate_certificate_pdf_def url_for_def Let_def)

lemma bulk_loop_None:
  "bulk_loop e user cd names w = (None, w') \<Longrightarrow> w' = w \<and> non_blank names = []"
proof (induction names arbitrary: w)
  case Nil
  then show ?case by (simp add: non_blank_def)
next
  case (Cons name names)
  show ?case
  proof (cases "strip name = []")
    case True
    with Cons show ?thesis by (simp add: non_blank_def)
  next
    case False
    obtain err w1 where
      "certificate_one e user cd (cd\<lparr>recipient_name := Some (strip name)\<rparr>) name w = (Some err, w1)"
      using certificate_one_raises by blast
    with False Cons.prems show ?thesis by simp
  qed
qed

lemma certificate_try_documents:
  "documents (snd (certificate_try e user bulk cd s)) = documents s"
proof -
  let ?w0 = "\<lparr>w_files = files s, w_added = [], generated_files = []\<rparr>"
  let ?res = "if bulk \<and> bulk_names cd \<noteq> [] then
               bulk_loop e user cd (bulk_names cd) ?w0
             else (case recipient_name cd of
                     None \<Rightarrow> (Some AttributeError, ?w0)
                   | Some name \<Rightarrow> certificate_one e user cd cd name ?w0)"
  obtain r w where rw: "?res = (r, w)" by (cases ?res)
  have unfolded: "certificate_try e user bulk cd s
          = (case r of Some err \<Rightarrow> (GenerationFailed, s\<lparr>files := w_files w\<rparr>)
             | None \<Rightarrow> (Success (generated_files w),
                        commit e user (w_added w) (int (length (generated_files w)))
                         (s\<lparr>files := w_files w\<rparr>)))"
    unfolding certificate_try_def Let_def rw by simp
  show ?thesis
  proof (cases r)
    case (Some err)
    with unfolded show ?thesis by simp
  next
    case None
    have "w_added w = []"
    proof (cases "bulk \<and> bulk_names cd \<noteq> []")
      case True
      with rw None have "bulk_loop e user cd (bulk_names cd) ?w0 = (None, w)" by simp
      from bulk_loop_None [OF this] show ?thesis by simp
    next
      case False
      show ?thesis
      proof (cases "recipient_name cd")
        case none: None
        with False rw None show ?thesis by auto
      next
        case (Some name)
        with False rw None have "certificate_one e user cd cd name ?w0 = (None, w)" by auto
        with certificate_one_raises [of e user cd cd name ?w0] show ?thesis by simp
      qed
    qed
    with unfolded None show ?thesis by (simp add: commit_def)
  qed
qed

text \<open>
  C5 fails: the certificate tool asks for each download URL before the document
  has an identifier, the URL builder raises, and the request is rolled back. So
  no certificate request ever adds a document. For a premium user's bulk request
  with the names Alice, empty, blank and Bob (two non-blank names) and a renderer
  that works, the response is a failure, no document is added, the counters stay
  as they were, and the one file rendered before the exception stays on disk.
\<close>

theorem bulk_certificates_never_recorded:
  "documents (snd (certificate_creator e uid form s)) = documents s
   \<and> is_premium carol (utcnow example_env) \<and> is_bulk bulk_form
   \<and> non_blank (bulk_names (form_fields bulk_form)) = [''Alice'', ''Bob'']
   \<and> fst (certificate_creator example_env 3 bulk_form premium_state) = GenerationFailed
   \<and> documents (snd (certificate_creator example_env 3 bulk_form premium_state))
       = documents premium_state
   \<and> map documents_created (users premium_state) = [5, 0]
   \<and> map documents_created (users (snd (certificate_creator example_env 3 bulk_form premium_state)))
       = [5, 0]
   \<and> dom (files (snd (certificate_creator example_env 3 bulk_form premium_state)))
       = {''generated_files/certificate_Alice_0a1b2c30.pdf''}"
proof -
  have general: "documents (snd (certificate_creator e uid form s)) = documents s"
    by (simp add: certificate_creator_def certificate_try_documents split: option.splits)
  have bulk: "is_bulk bulk_form"
    by (simp add: is_bulk_def bulk_form_def)
  have nb: "non_blank (bulk_names (form_fields bulk_form)) = [''Alice'', ''Bob'']"
    by (simp add: non_blank_def strip_def isspace_def bulk_form_def course_fields_def)
  have run: "certificate_creator example_env 3 bulk_form premium_state
      = (GenerationFailed,
         premium_state\<lparr>files := [''generated_files/certificate_Alice_0a1b2c30.pdf'' \<mapsto>
            CertificatePdf (course_fields\<lparr>recipient_name := Some ''Alice'',
                              bulk_names := [''Alice'', '''', '' '', ''Bob'']\<rparr>)]\<rparr>)"
    using carol_premium premium_can_create [OF carol_premium]
    by (simp add: certificate_creator_def certificate_try_def certificate_one_def
        certificate_document_def generate_certificate_pdf_def url_for_def
        get_current_user_def premium_state_def bulk_form_def course_fields_def
        is_bulk_def example_env_def strip_def isspace_def replace_char_def path_join_def
        GENERATED_FILES_FOLDER_def alice_def carol_def Let_def)
  have counters: "map documents_created (users premium_state) = [5, 0]"
    by (simp add: premium_state_def alice_def carol_def)
  show ?thesis
    using general carol_premium bulk nb counters by (simp add: run)
qed

section \<open>The counter, one request after the other\<close>

lemma get_current_user_row:
  "get_current_user s uid = Some user \<Longrightarrow> user \<in> set (users s) \<and> id_user user = uid"
  by (auto simp add: get_current_user_def find_Some_iff)

lemma count_inserted:
  "length (filter (\<lambda>d. user_id d = x) (map (\<lambda>(k, p). insert_row e k p) (enumerate n added)))
     = length (filter (\<lambda>p. user_id p = x) added)"
  by (induction added arbitrary: n) (auto simp add: insert_row_def)

lemma count_owned:
  "\<forall>p\<in>set added. user_id p = owner \<Longrightarrow>
   length (filter (\<lambda>p. user_id p = x) added) = (if x = owner then length added else 0)"
  by (induction added) auto

lemma documents_commit:
  "documents (commit e user added n s)
     = documents s @ map (\<lambda>(k, p). insert_row e k p) (enumerate 0 added)"
  by (simp add: commit_def)

lemma rows_of_commit:
  "rows_of (commit e user added n (s\<lparr>files := fs\<rparr>)) x
     = rows_of s x + length (filter (\<lambda>p. user_id p = x) added)"
proof -
  have "filter (\<lambda>d. user_id d = x) (documents (commit e user added n (s\<lparr>files := fs\<rparr>)))
          = filter (\<lambda>d. user_id d = x) (documents s)
            @ filter (\<lambda>d. user_id d = x) (map (\<lambda>(k, p). insert_row e k p) (enumerate 0 added))"
  proof -
    have "documents (s\<lparr>files := fs\<rparr>) = documents s" by simp
    then show ?thesis by (simp only: documents_commit filter_append)
  qed
  then show ?thesis
    unfolding rows_of_def by (simp only: length_append count_inserted)
qed

lemma commit_counter_matches:
  assumes "counter_matches s" and "user \<in> set (users s)"
    and "\<forall>p\<in>set added. user_id p = id_user user"
  shows "counter_matches (commit e user added (int (length added)) (s\<lparr>files := fs\<rparr>))"
proof -
  have own: "documents_created user = int (rows_of s (id_user user))"
    using assms(1,2) by (simp add: counter_matches_def list_all_iff)
  have "\<And>row. row \<in> set (users (commit e user added (int (length added)) (s\<lparr>files := fs\<rparr>)))
         \<Longrightarrow> documents_created row
             = int (rows_of (commit e user added (int (length added)) (s\<lparr>files := fs\<rparr>)) (id_user row))"
  proof -
    fix row
    assume "row \<in> set (users (commit e user added (int (length added)) (s\<lparr>files := fs\<rparr>)))"
    then obtain old where old: "old \<in> set (users s)"
      "row = (if id_user old = id_user user
              then old\<lparr>documents_created := documents_created user + int (length added)\<rparr>
              else old)"
      by (auto simp add: commit_def)
    have oldc: "documents_created old = int (rows_of s (id_user old))"
      using assms(1) old(1) by (simp add: counter_matches_def list_all_iff)
    show "documents_created row
             = int (rows_of (commit e user added (int (length added)) (s\<lparr>files := fs\<rparr>)) (id_user row))"
      using old(2) oldc own count_owned [OF assms(3), of "id_user old"]
      by (simp add: rows_of_commit split: if_splits)
  qed
  then show ?thesis by (simp add: counter_matches_def list_all_iff)
qed

lemma commit_never_decreased:
  "never_decreased s (commit e user added (int (length added)) (s\<lparr>files := fs\<rparr>))
   = (\<forall>row\<in>set (users s). id_user row = id_user user \<longrightarrow>
        documents_created row \<le> documents_created user + int (length added))"
  by (auto simp add: never_decreased_def commit_def list_all2_map2 list_all2_same)

lemma same_id_same_counter:
  "counter_matches s \<Longrightarrow> u \<in> set (users s) \<Longrightarrow> v \<in> set (users s) \<Longrightarrow> id_user u = id_user v
   \<Longrightarrow> documents_created u = documents_created v"
  by (simp add: counter_matches_def list_all_iff)

lemma ledger_step_invariant:
  assumes "ledger_step e s s'" and "counter_matches s"
  shows "counter_matches s' \<and> never_decreased s s'"
proof -
  from assms(1) consider
    (same) fs where "s' = s\<lparr>files := fs\<rparr>"
  | (committed) user added fs where "user \<in> set (users s)"
      "\<forall>p\<in>set added. user_id p = id_user user"
      "s' = commit e user added (int (length added)) (s\<lparr>files := fs\<rparr>)"
    by (auto simp add: ledger_step_def)
  then show ?thesis
  proof cases
    case same
    with assms(2) show ?thesis
      by (simp add: counter_matches_def rows_of_def never_decreased_def list_all2_same)
  next
    case committed
    have "\<forall>row\<in>set (users s). id_user row = id_user user \<longrightarrow>
            documents_created row \<le> documents_created user + int (length added)"
      using same_id_same_counter [OF assms(2) _ committed(1)] by fastforce
    with committed assms(2) show ?thesis
      using commit_counter_matches commit_never_decreased by simp
  qed
qed

lemma ledger_step_same: "ledger_step e s (s\<lparr>files := fs\<rparr>)"
  by (auto simp add: ledger_step_def)

lemma ledger_step_refl: "ledger_step e s s"
  using ledger_step_same [of e s "files s"] by simp

lemma ledger_step_commit:
  "user \<in> set (users s) \<Longrightarrow> \<forall>p\<in>set added. user_id p = id_user user \<Longrightarrow> n = int (length added)
   \<Longrightarrow> ledger_step e s (commit e user added n (s\<lparr>files := fs\<rparr>))"
  unfolding ledger_step_def
  by (intro disjI2 exI [of _ user] exI [of _ added] exI [of _ fs]) simp

lemma invoice_try_step:
  "user \<in> set (users s) \<Longrightarrow> ledger_step e s (snd (invoice_try e user d s))"
  by (auto simp add: invoice_try_def Let_def split: prod.splits sum.splits
      intro!: ledger_step_same ledger_step_commit)

lemma qrcode_try_step:
  "user \<in> set (users s) \<Longrightarrow> ledger_step e s (snd (qrcode_try e user q c s))"
  by (auto simp add: qrcode_try_def Let_def split: prod.splits sum.splits
      intro!: ledger_step_same ledger_step_commit)

lemma resume_try_step:
  "user \<in> set (users s) \<Longrightarrow> ledger_step e s (snd (resume_try e user d s))"
  by (auto simp add: resume_try_def Let_def split: prod.splits sum.splits option.splits
      intro!: ledger_step_same ledger_step_commit ledger_step_refl)

lemma certificate_one_added:
  assumes "certificate_one e user cd cert name w = (r, w')"
    and "\<forall>p\<in>set (w_added w). user_id p = id_user user"
  shows "(\<forall>p\<in>set (w_added w'). user_id p = id_user user)
         \<and> (r = None \<longrightarrow> length (w_added w') + length (generated_files w)
                           = length (generated_files w') + length (w_added w))"
  using assms
  by (auto simp add: certificate_one_def certificate_document_def Let_def
      split: prod.splits sum.splits)

lemma bulk_loop_added:
  assumes "bulk_loop e user cd names w = (r, w')"
    and "\<forall>p\<in>set (w_added w). user_id p = id_user user"
  shows "(\<forall>p\<in>set (w_added w'). user_id p = id_user user)
         \<and> (r = None \<longrightarrow> length (w_added w') + length (generated_files w)
                           = length (generated_files w') + length (w_added w))"
  using assms
proof (induction names arbitrary: w)
  case Nil
  then show ?case by simp
next
  case (Cons name names)
  show ?case
  proof (cases "strip name = []")
    case True
    with Cons show ?thesis by simp
  next
    case False
    obtain r1 w1 where one:
      "certificate_one e user cd (cd\<lparr>recipient_name := Some (strip name)\<rparr>) name w = (r1, w1)"
      by (cases "certificate_one e user cd (cd\<lparr>recipient_name := Some (strip name)\<rparr>) name w")
    note a = certificate_one_added [OF one Cons.prems(2)]
    show ?thesis
    proof (cases r1)
      case None
      with False one Cons.prems(1) have "bulk_loop e user cd names w1 = (r, w')" by simp
      from Cons.IH [OF this] a None show ?thesis by auto
    next
      case (Some err)
      with False one Cons.prems(1) have "r = Some err" "w' = w1" by simp_all
      with a show ?thesis by simp
    qed
  qed
qed

lemma certificate_try_step:
  assumes "user \<in> set (users s)"
  shows "ledger_step e s (snd (certificate_try e user bulk cd s))"
proof -
  let ?w0 = "\<lparr>w_files = files s, w_added = [], generated_files = []\<rparr>"
  let ?res = "if bulk \<and> bulk_names cd \<noteq> [] then
               bulk_loop e user cd (bulk_names cd) ?w0
             else (case recipient_name cd of
                     None \<Rightarrow> (Some AttributeError, ?w0)
                   | Some name \<Rightarrow> certificate_one e user cd cd name ?w0)"
  obtain r w where rw: "?res = (r, w)" by (cases ?res)
  have inv: "(\<forall>p\<in>set (w_added w). user_id p = id_user user)
         \<and> (r = None \<longrightarrow> length (w_added w) = length (generated_files w))"
  proof (cases "bulk \<and> bulk_names cd \<noteq> []")
    case True
    with rw have "bulk_loop e user cd (bulk_names cd) ?w0 = (r, w)" by simp
    from bulk_loop_added [OF this] show ?thesis by simp
  next
    case False
    show ?thesis
    proof (cases "recipient_name cd")
      case None
      with False rw show ?thesis by auto
    next
      case (Some name)
      with False rw have "certificate_one e user cd cd name ?w0 = (r, w)" by auto
      from certificate_one_added [OF this] show ?thesis by simp
    qed
  qed
  have "certificate_try e user bulk cd s
          = (case r of Some err \<Rightarrow> (GenerationFailed, s\<lparr>files := w_files w\<rparr>)
             | None \<Rightarrow> (Success (generated_files w),
                        commit e user (w_added w) (int (length (generated_files w)))
                         (s\<lparr>files := w_files w\<rparr>)))"
    unfolding certificate_try_def Let_def rw by simp
  with inv assms show ?thesis
    by (auto split: option.splits intro!: ledger_step_same ledger_step_commit)
qed

lemma handle_step: "ledger_step e s (snd (handle e uid req s))"
proof (cases "get_current_user s uid")
  case None
  then show ?thesis
    by (cases req) (simp_all add: invoice_generator_def qrcode_generator_def resume_builder_def
        certificate_creator_def ledger_step_refl)
next
  case (Some user)
  then have u: "user \<in> set (users s)" using get_current_user_row by blast
  show ?thesis
  proof (cases req)
    case (Invoice d)
    with Some u show ?thesis
      by (simp add: invoice_generator_def ledger_step_refl invoice_try_step)
  next
    case (Qrcode d)
    with Some u show ?thesis
      by (simp add: qrcode_generator_def ledger_step_refl qrcode_try_step Let_def
          split: option.splits)
  next
    case (Resume d)
    with Some u show ?thesis
      by (simp add: resume_builder_def ledger_step_refl resume_try_step)
  next
    case (Certificate form)
    with Some u show ?thesis
      by (simp add: certificate_creator_def ledger_step_refl certificate_try_step)
  qed
qed

lemma never_decreased_trans:
  "never_decreased s s' \<Longrightarrow> never_decreased s' s'' \<Longrightarrow> never_decreased s s''"
  unfolding never_decreased_def
  by (erule (1) list_all2_trans [rotated]) auto

lemma never_decreased_refl: "never_decreased s s"
  by (simp add: never_decreased_def list_all2_same)

text \<open>
  When requests are handled one after the other, the counters stay equal to the
  row counts and never go down: from a state in which every user's
  \<open>documents_created\<close> equals the number of that user's document rows, any
  sequence of generation requests ends in such a state.
\<close>

lemma serial_counter_equals_rows:
  assumes "counter_matches s"
  shows "counter_matches (run rs s) \<and> never_decreased s (run rs s)"
  using assms
proof (induction rs arbitrary: s)
  case Nil
  then show ?case by (simp add: never_decreased_refl)
next
  case (Cons r rs)
  obtain e uid req where r: "r = (e, uid, req)" by (cases r)
  define s1 where "s1 = snd (handle e uid req s)"
  have step: "counter_matches s1 \<and> never_decreased s s1"
    using ledger_step_invariant [OF handle_step Cons.prems] by (simp add: s1_def)
  with Cons.IH [of s1] have "counter_matches (run rs s1) \<and> never_decreased s1 (run rs s1)"
    by simp
  with step show ?case
    using never_decreased_trans by (auto simp add: r s1_def)
qed

section \<open>Two concurrent requests\<close>

text \<open>
  C1 fails: a free user has four documents this month. When two workers both
  pass the quota check before either commits, both invoice requests succeed, the
  month has six documents, and the second worker's counter write (from its stale
  user object) leaves the counter at 6 for 7 rows. Handled one after the other,
  the second request gets \<open>QuotaExceeded\<close>.
\<close>

theorem quota_double_spend:
  "length (artifacts_this_month alice (documents example_state) (jan 15 12)) = 4
   \<and> fst (two_workers_invoice example_env example_env_b 1 example_invoice example_invoice
            example_state)
       = (Success [(''6f1c-0'', ''/download/6f1c-0'')], Success [(''b2d4-0'', ''/download/b2d4-0'')])
   \<and> length (artifacts_this_month alice
               (documents (snd (two_workers_invoice example_env example_env_b 1 example_invoice
                                  example_invoice example_state))) (jan 15 12)) = 6
   \<and> map documents_created
         (users (snd (two_workers_invoice example_env example_env_b 1 example_invoice
                        example_invoice example_state))) = [6]
   \<and> rows_of (snd (two_workers_invoice example_env example_env_b 1 example_invoice
                       example_invoice example_state)) 1 = 7
   \<and> fst (invoice_generator example_env_b 1 example_invoice
            (snd (invoice_generator example_env 1 example_invoice example_state)))
       = QuotaExceeded"
proof -
  have four: "length (artifacts_this_month alice (documents example_state) (jan 15 12)) = 4"
    by (simp add: artifacts_this_month_def first_instant_of_month_def dt_key_def
        example_state_def alice_def alice_docs_def doc_of_def jan_def dec_def)
  have u: "get_current_user example_state 1 = Some alice"
    by (simp add: get_current_user_def example_state_def alice_def)
  have pa: "can_create_document alice (documents example_state) (utcnow example_env)"
    using alice_may_create by (simp add: example_state_def example_env_def)
  have pb: "can_create_document alice (documents example_state) (utcnow example_env_b)"
    using alice_may_create by (simp add: example_state_def example_env_b_def)
  have ra: "render_ok example_env p" for p by (simp add: example_env_def)
  have rb: "render_ok example_env_b p" for p by (simp add: example_env_b_def)
  have two: "two_workers_invoice example_env example_env_b 1 example_invoice example_invoice
               example_state
       = ((fst (invoice_try example_env alice example_invoice example_state),
           fst (invoice_try example_env_b alice example_invoice
                  (snd (invoice_try example_env alice example_invoice example_state)))),
          snd (invoice_try example_env_b alice example_invoice
                  (snd (invoice_try example_env alice example_invoice example_state))))"
    using u pa pb by (simp add: two_workers_invoice_def Let_def case_prod_beta)
  have resp: "fst (two_workers_invoice example_env example_env_b 1 example_invoice example_invoice
            example_state)
       = (Success [(''6f1c-0'', ''/download/6f1c-0'')], Success [(''b2d4-0'', ''/download/b2d4-0'')])"
    unfolding two invoice_try_ok [OF ra] invoice_try_ok [OF rb]
    by (simp add: example_env_def example_env_b_def)
  have six: "length (artifacts_this_month alice
               (documents (snd (two_workers_invoice example_env example_env_b 1 example_invoice
                                  example_invoice example_state))) (jan 15 12)) = 6"
    unfolding two invoice_try_ok [OF ra] invoice_try_ok [OF rb]
    by (simp add: commit_def insert_row_def
        artifacts_this_month_def first_instant_of_month_def dt_key_def
        example_env_def example_env_b_def example_state_def alice_def alice_docs_def doc_of_def
        jan_def dec_def)
  have lost: "map documents_created
         (users (snd (two_workers_invoice example_env example_env_b 1 example_invoice
                        example_invoice example_state))) = [6]"
    unfolding two invoice_try_ok [OF ra] invoice_try_ok [OF rb]
    by (simp add: commit_def example_state_def alice_def)
  have seven: "rows_of (snd (two_workers_invoice example_env example_env_b 1 example_invoice
                       example_invoice example_state)) 1 = 7"
    unfolding two invoice_try_ok [OF ra] invoice_try_ok [OF rb]
    by (simp add: commit_def insert_row_def rows_of_def example_state_def alice_def
        alice_docs_def doc_of_def)
  have s1: "snd (invoice_generator example_env 1 example_invoice example_state)
              = snd (invoice_try example_env alice example_invoice example_state)"
    using u pa by (simp add: invoice_generator_def)
  have serial: "fst (invoice_generator example_env_b 1 example_invoice
            (snd (invoice_generator example_env 1 example_invoice example_state)))
       = QuotaExceeded"
    unfolding s1 invoice_try_ok [OF ra]
    by (simp add: invoice_generator_def get_current_user_def commit_def
        insert_row_def can_create_document_def is_premium_def dt_ge_def dt_key_def
        example_env_def example_env_b_def example_state_def alice_def alice_docs_def doc_of_def
        jan_def dec_def)
  show ?thesis using four resp six lost seven serial by simp
qed

text \<open>
  C7 fails: the counter is written from the user object each worker loaded, so
  two workers that load the user before either commits both write the old value
  plus one. A user with no documents and counter 0, well within the quota, sends
  two invoice requests; both succeed, the table has two rows of that user and
  the counter is 1. The state before satisfies the invariant, the settled state
  after both commits does not.
\<close>

theorem counter_lost_update:
  "counter_matches shared_state
   \<and> can_create_document bob (documents shared_state) (utcnow example_env)
   \<and> fst (two_workers_invoice example_env example_env_b 2 example_invoice example_invoice
            shared_state)
       = (Success [(''6f1c-0'', ''/download/6f1c-0'')], Success [(''b2d4-0'', ''/download/b2d4-0'')])
   \<and> map documents_created (users shared_state) = [5, 0]
   \<and> map documents_created
         (users (snd (two_workers_invoice example_env example_env_b 2 example_invoice
                        example_invoice shared_state))) = [5, 1]
   \<and> rows_of (snd (two_workers_invoice example_env example_env_b 2 example_invoice
                       example_invoice shared_state)) 2 = 2
   \<and> \<not> counter_matches (snd (two_workers_invoice example_env example_env_b 2 example_invoice
                                 example_invoice shared_state))"
proof -
  have before: "counter_matches shared_state"
    by (simp add: counter_matches_def rows_of_def shared_state_def alice_def bob_def
        alice_docs_def doc_of_def)
  have u: "get_current_user shared_state 2 = Some bob"
    by (simp add: get_current_user_def shared_state_def alice_def bob_def)
  have pa: "can_create_document bob (documents shared_state) (utcnow example_env)"
    by (simp add: can_create_document_def is_premium_def shared_state_def bob_def
        alice_docs_def doc_of_def)
  have pb: "can_create_document bob (documents shared_state) (utcnow example_env_b)"
    by (simp add: can_create_document_def is_premium_def shared_state_def bob_def
        alice_docs_def doc_of_def)
  have ra: "render_ok example_env p" for p by (simp add: example_env_def)
  have rb: "render_ok example_env_b p" for p by (simp add: example_env_b_def)
  have two: "two_workers_invoice example_env example_env_b 2 example_invoice example_invoice
               shared_state
       = ((fst (invoice_try example_env bob example_invoice shared_state),
           fst (invoice_try example_env_b bob example_invoice
                  (snd (invoice_try example_env bob example_invoice shared_state)))),
          snd (invoice_try example_env_b bob example_invoice
                  (snd (invoice_try example_env bob example_invoice shared_state))))"
    using u pa pb by (simp add: two_workers_invoice_def Let_def case_prod_beta)
  have resp: "fst (two_workers_invoice example_env example_env_b 2 example_invoice example_invoice
            shared_state)
       = (Success [(''6f1c-0'', ''/download/6f1c-0'')], Success [(''b2d4-0'', ''/download/b2d4-0'')])"
    unfolding two invoice_try_ok [OF ra] invoice_try_ok [OF rb]
    by (simp add: example_env_def example_env_b_def)
  have start: "map documents_created (users shared_state) = [5, 0]"
    by (simp add: shared_state_def alice_def bob_def)
  have lost: "map documents_created
         (users (snd (two_workers_invoice example_env example_env_b 2 example_invoice
                        example_invoice shared_state))) = [5, 1]"
    unfolding two invoice_try_ok [OF ra] invoice_try_ok [OF rb]
    by (simp add: commit_def shared_state_def alice_def bob_def)
  have rows: "rows_of (snd (two_workers_invoice example_env example_env_b 2 example_invoice
                       example_invoice shared_state)) 2 = 2"
    unfolding two invoice_try_ok [OF ra] invoice_try_ok [OF rb]
    by (simp add: commit_def insert_row_def rows_of_def shared_state_def bob_def
        alice_docs_def doc_of_def)
  have broken: "\<not> counter_matches (snd (two_workers_invoice example_env example_env_b 2
                                 example_invoice example_invoice shared_state))"
    unfolding two invoice_try_ok [OF ra] invoice_try_ok [OF rb]
    by (simp add: counter_matches_def commit_def insert_row_def rows_of_def shared_state_def
        alice_def bob_def alice_docs_def doc_of_def)
  show ?thesis using before pa resp start lost rows broken by simp
qed


end
